theory Spec2Isabelle
  imports Complex_Main "HOL-Library.AList"
begin

section \<open>Conventions of the embedding\<close>

text \<open>
  The scoring core of ExoHabitabilityLab is embedded function by function.
  \<^item> A Python \<open>float\<close> is a \<open>real\<close>: rounding, overflow, infinities and NaN are outside
    the model, so every statement below is about the exact arithmetic the code approximates.
  \<^item> \<open>Optional[float]\<close> is \<open>real option\<close>; a dataclass is a record; an \<open>Enum\<close> is a datatype.
  \<^item> A Python \<open>dict\<close> is an association list in insertion order; its keys are distinct.
  \<^item> A raised exception is the left summand of \<open>error + 'a\<close>; the string carried by an
    \<open>error\<close> is what \<open>str(e)\<close> returns.
  \<^item> Logging and the wall-clock timestamp of an assessment are left out.
\<close>

datatype error =
    ZeroDivisionError string
  | ValueError string
  | TypeError string
  | RuntimeError string

fun str_of_error :: "error \<Rightarrow> string" where
  "str_of_error (ZeroDivisionError m) = m"
| "str_of_error (ValueError m) = m"
| "str_of_error (TypeError m) = m"
| "str_of_error (RuntimeError m) = m"

section \<open>Scoring configuration (app/domain/scoring/config.py)\<close>

text \<open>
  \<open>FactorWeightConfig\<close>: the \<open>parameters\<close> dictionary is carried by the source but read by
  no scoring code, so the record holds the three fields that are.
\<close>

record FactorWeightConfig =
  wc_factor_id :: string
  wc_weight :: real
  enabled :: bool

text \<open>The dataclass constructor with its \<open>__post_init__\<close> range check.\<close>

definition FactorWeightConfig_init :: "string \<Rightarrow> real \<Rightarrow> bool \<Rightarrow> error + FactorWeightConfig" where
  "FactorWeightConfig_init fid w en =
     (if \<not> (0 \<le> w \<and> w \<le> 1) then Inl (ValueError ''Weight must be between 0 and 1'')
      else Inr \<lparr>wc_factor_id = fid, wc_weight = w, enabled = en\<rparr>)"

record ScoringConfig =
  version :: string
  factor_weights :: "(string \<times> FactorWeightConfig) list"
  normalization_method :: string
  minimum_factors :: int
  confidence_thresholds :: "(string \<times> real) list"

definition DEFAULT_WEIGHTS :: "(string \<times> real) list" where
  "DEFAULT_WEIGHTS =
     [(''stellar_type'', 0.12),
      (''stellar_luminosity'', 0.08),
      (''stellar_age'', 0.05),
      (''habitable_zone_position'', 0.05),
      (''planet_radius'', 0.12),
      (''planet_mass'', 0.08),
      (''planet_density'', 0.05),
      (''equilibrium_temperature'', 0.10),
      (''surface_gravity'', 0.05),
      (''orbital_eccentricity'', 0.08),
      (''tidal_locking'', 0.07),
      (''atmosphere_retention'', 0.08),
      (''magnetic_field_potential'', 0.07)]"

definition DEFAULT_CONFIDENCE_THRESHOLDS :: "(string \<times> real) list" where
  "DEFAULT_CONFIDENCE_THRESHOLDS =
     [(''very_low'', 0.2), (''low'', 0.4), (''medium'', 0.6), (''high'', 0.8), (''very_high'', 1.0)]"

text \<open>
  \<open>ScoringConfig(...)\<close> followed by \<open>__post_init__\<close>: an empty weight table is replaced by
  the default table (every default weight passes the range check of \<open>FactorWeightConfig\<close>),
  an empty threshold table by the default thresholds.
\<close>

definition ScoringConfig_init ::
  "string \<Rightarrow> (string \<times> FactorWeightConfig) list \<Rightarrow> string \<Rightarrow> int \<Rightarrow> (string \<times> real) list \<Rightarrow> ScoringConfig" where
  "ScoringConfig_init v fw nm mf ct =
     \<lparr>version = v,
      factor_weights =
        (if fw = []
         then map (\<lambda>(fid, w). (fid, \<lparr>wc_factor_id = fid, wc_weight = w, enabled = True\<rparr>)) DEFAULT_WEIGHTS
         else fw),
      normalization_method = nm,
      minimum_factors = mf,
      confidence_thresholds = (if ct = [] then DEFAULT_CONFIDENCE_THRESHOLDS else ct)\<rparr>"

text \<open>\<open>load_default_config()\<close> when no configuration file is found: \<open>ScoringConfig()\<close>.\<close>

definition load_default_config :: ScoringConfig where
  "load_default_config = ScoringConfig_init ''2.0.0'' [] ''weighted_average'' 3 []"

definition get_weight :: "ScoringConfig \<Rightarrow> string \<Rightarrow> real" where
  "get_weight cfg fid =
     (case map_of (factor_weights cfg) fid of
        Some c \<Rightarrow> (if enabled c then wc_weight c else 0)
      | None \<Rightarrow> 0)"

definition is_factor_enabled :: "ScoringConfig \<Rightarrow> string \<Rightarrow> bool" where
  "is_factor_enabled cfg fid =
     (case map_of (factor_weights cfg) fid of
        Some c \<Rightarrow> enabled c
      | None \<Rightarrow> True)"

definition get_enabled_factors :: "ScoringConfig \<Rightarrow> string list" where
  "get_enabled_factors cfg = map fst (filter (\<lambda>(fid, c). enabled c) (factor_weights cfg))"

definition get_total_weight :: "ScoringConfig \<Rightarrow> real" where
  "get_total_weight cfg =
     sum_list (map (\<lambda>(fid, c). wc_weight c) (filter (\<lambda>(fid, c). enabled c) (factor_weights cfg)))"

definition normalize_weights :: "ScoringConfig \<Rightarrow> (string \<times> real) list" where
  "normalize_weights cfg =
     (let total = get_total_weight cfg in
      if total = 0 then []
      else map (\<lambda>(fid, c). (fid, wc_weight c / total))
               (filter (\<lambda>(fid, c). enabled c) (factor_weights cfg)))"

text \<open>
  What \<open>FactorWeightConfig.__post_init__\<close> guarantees of every entry of a configuration:
  its weight lies in \<open>[0, 1]\<close>.
\<close>

definition weights_validated :: "ScoringConfig \<Rightarrow> bool" where
  "weights_validated cfg =
     list_all (\<lambda>(fid, c). 0 \<le> wc_weight c \<and> wc_weight c \<le> 1) (factor_weights cfg)"

text \<open>A configuration whose two entries are both switched off.\<close>

definition all_disabled_config :: ScoringConfig where
  "all_disabled_config =
     ScoringConfig_init ''2.0.0''
       [(''planet_radius'', \<lparr>wc_factor_id = ''planet_radius'', wc_weight = 0.6, enabled = False\<rparr>),
        (''planet_mass'', \<lparr>wc_factor_id = ''planet_mass'', wc_weight = 0.4, enabled = False\<rparr>)]
       ''weighted_average'' 3 []"

section \<open>Domain entities (app/domain/entities)\<close>

subsection \<open>Exoplanet\<close>

datatype PlanetType =
  TERRESTRIAL | SUPER_EARTH | SUB_NEPTUNE | NEPTUNE_LIKE | GAS_GIANT | PlanetType_UNKNOWN

record OrbitalParameters =
  period_days :: "real option"
  semi_major_axis_au :: "real option"
  eccentricity :: "real option"
  inclination_deg :: "real option"

record PhysicalParameters =
  radius_earth :: "real option"
  radius_jupiter :: "real option"
  mass_earth :: "real option"
  mass_jupiter :: "real option"
  density_g_cm3 :: "real option"
  equilibrium_temp_k :: "real option"

text \<open>
  The derived properties of \<open>PhysicalParameters\<close>. Each returns \<open>Inr None\<close> where the source
  returns \<open>None\<close> and \<open>Inl\<close> where the source's arithmetic raises: a float division by zero
  raises \<open>ZeroDivisionError\<close>, \<open>math.sqrt\<close> of a negative number raises \<open>ValueError\<close>.
\<close>

definition surface_gravity_earth :: "PhysicalParameters \<Rightarrow> error + real option" where
  "surface_gravity_earth p =
     (case (mass_earth p, radius_earth p) of
        (Some m, Some r) \<Rightarrow>
          if r \<le> 0 then Inr None
          else Inr (Some (m / r ^ 2))
      | _ \<Rightarrow> Inr None)"

definition escape_velocity_km_s :: "PhysicalParameters \<Rightarrow> error + real option" where
  "escape_velocity_km_s p =
     (case (mass_earth p, radius_earth p) of
        (Some m, Some r) \<Rightarrow>
          if r \<le> 0 then Inr None
          else if m / r < 0 then Inl (ValueError ''math domain error'')
          else Inr (Some (11.186 * sqrt (m / r)))
      | _ \<Rightarrow> Inr None)"

definition classify_planet_type :: "PhysicalParameters \<Rightarrow> PlanetType" where
  "classify_planet_type p =
     (case radius_earth p of
        None \<Rightarrow> PlanetType_UNKNOWN
      | Some r \<Rightarrow>
          if r < 1.0 then TERRESTRIAL
          else if r < 1.75 then SUPER_EARTH
          else if r < 3.5 then SUB_NEPTUNE
          else if r < 6.0 then NEPTUNE_LIKE
          else GAS_GIANT)"

definition estimate_density :: "PhysicalParameters \<Rightarrow> error + real option" where
  "estimate_density p =
     (case density_g_cm3 p of
        Some d \<Rightarrow> Inr (Some d)
      | None \<Rightarrow>
          (case (mass_earth p, radius_earth p) of
             (Some m, Some r) \<Rightarrow>
               if r ^ 3 = 0 then Inl (ZeroDivisionError ''float division by zero'')
               else Inr (Some (5.514 * m / r ^ 3))
           | _ \<Rightarrow> Inr None))"

text \<open>
  \<open>ExoplanetEntity\<close>: the identity and the two parameter groups. The discovery, position
  and catalogue fields of the source are read by no scoring code.
\<close>

record ExoplanetEntity =
  ex_id :: "int option"
  ex_name :: string
  ex_host_star_name :: string
  orbital :: OrbitalParameters
  physical :: PhysicalParameters

definition OrbitalParameters_default :: OrbitalParameters where
  "OrbitalParameters_default =
     \<lparr>period_days = None, semi_major_axis_au = None, eccentricity = None, inclination_deg = None\<rparr>"

definition PhysicalParameters_default :: PhysicalParameters where
  "PhysicalParameters_default =
     \<lparr>radius_earth = None, radius_jupiter = None, mass_earth = None, mass_jupiter = None,
      density_g_cm3 = None, equilibrium_temp_k = None\<rparr>"

text \<open>\<open>ExoplanetEntity()\<close>: every optional field absent.\<close>

definition ExoplanetEntity_default :: ExoplanetEntity where
  "ExoplanetEntity_default =
     \<lparr>ex_id = None, ex_name = [], ex_host_star_name = [],
      orbital = OrbitalParameters_default, physical = PhysicalParameters_default\<rparr>"

subsection \<open>Star\<close>

datatype SpectralClass =
    SpectralClass_O | SpectralClass_B | SpectralClass_A | SpectralClass_F | SpectralClass_G
  | SpectralClass_K | SpectralClass_M | SpectralClass_L | SpectralClass_T | SpectralClass_Y
  | SpectralClass_UNKNOWN

datatype LuminosityClass =
    LuminosityClass_Ia | LuminosityClass_Ib | LuminosityClass_II | LuminosityClass_III
  | LuminosityClass_IV | LuminosityClass_V | LuminosityClass_VI | LuminosityClass_VII
  | LuminosityClass_UNKNOWN

record StarEntity =
  star_name :: string
  spectral_type :: "string option"
  mass_solar :: "real option"
  radius_solar :: "real option"
  temperature_k :: "real option"
  luminosity_solar :: "real option"
  luminosity_log :: "real option"
  metallicity :: "real option"
  age_gyr :: "real option"

text \<open>\<open>StarEntity()\<close>: every optional field absent.\<close>

definition StarEntity_default :: StarEntity where
  "StarEntity_default =
     \<lparr>star_name = [], spectral_type = None, mass_solar = None, radius_solar = None,
      temperature_k = None, luminosity_solar = None, luminosity_log = None,
      metallicity = None, age_gyr = None\<rparr>"

definition SOLAR_TEMP_K :: real where
  "SOLAR_TEMP_K = 5778"

text \<open>
  \<open>str.upper()\<close> on the ASCII letters, and the substring test \<open>sub in s\<close>.
\<close>

definition upper_char :: "char \<Rightarrow> char" where
  "upper_char c =
     (let n = (of_char c :: nat) in if 97 \<le> n \<and> n \<le> 122 then char_of (n - 32) else c)"

definition upper :: "string \<Rightarrow> string" where
  "upper s = map upper_char s"

fun contains :: "string \<Rightarrow> string \<Rightarrow> bool" where
  "contains sub [] = (sub = [])"
| "contains sub (c # cs) = (take (length sub) (c # cs) = sub \<or> contains sub cs)"

definition spectral_class :: "StarEntity \<Rightarrow> SpectralClass" where
  "spectral_class star =
     (case spectral_type star of
        None \<Rightarrow> SpectralClass_UNKNOWN
      | Some [] \<Rightarrow> SpectralClass_UNKNOWN
      | Some (c # cs) \<Rightarrow>
          (let first_char = upper_char c in
           if first_char = CHR ''O'' then SpectralClass_O
           else if first_char = CHR ''B'' then SpectralClass_B
           else if first_char = CHR ''A'' then SpectralClass_A
           else if first_char = CHR ''F'' then SpectralClass_F
           else if first_char = CHR ''G'' then SpectralClass_G
           else if first_char = CHR ''K'' then SpectralClass_K
           else if first_char = CHR ''M'' then SpectralClass_M
           else if first_char = CHR ''L'' then SpectralClass_L
           else if first_char = CHR ''T'' then SpectralClass_T
           else if first_char = CHR ''Y'' then SpectralClass_Y
           else SpectralClass_UNKNOWN))"

definition luminosity_class :: "StarEntity \<Rightarrow> LuminosityClass" where
  "luminosity_class star =
     (case spectral_type star of
        None \<Rightarrow> LuminosityClass_UNKNOWN
      | Some [] \<Rightarrow> LuminosityClass_UNKNOWN
      | Some (c # cs) \<Rightarrow>
          (let spec = upper (c # cs) in
           if contains ''VII'' spec then LuminosityClass_VII
           else if contains ''VI'' spec then LuminosityClass_VI
           else if contains ''IV'' spec then LuminosityClass_IV
           else if contains ''III'' spec then LuminosityClass_III
           else if contains ''II'' spec then LuminosityClass_II
           else if contains ''IB'' spec then LuminosityClass_Ib
           else if contains ''IA'' spec then LuminosityClass_Ia
           else if contains ''V'' spec then LuminosityClass_V
           else LuminosityClass_UNKNOWN))"

definition luminosity_linear :: "StarEntity \<Rightarrow> real option" where
  "luminosity_linear star =
     (case luminosity_solar star of
        Some l \<Rightarrow> Some l
      | None \<Rightarrow>
          (case luminosity_log star of
             Some lg \<Rightarrow> Some (10 powr lg)
           | None \<Rightarrow> None))"

definition estimate_luminosity :: "StarEntity \<Rightarrow> real option" where
  "estimate_luminosity star =
     (case luminosity_linear star of
        Some l \<Rightarrow> Some l
      | None \<Rightarrow>
          (case (radius_solar star, temperature_k star) of
             (Some r, Some t) \<Rightarrow> Some (r ^ 2 * (t / SOLAR_TEMP_K) ^ 4)
           | _ \<Rightarrow> None))"

text \<open>
  The four stellar-flux polynomials of \<open>calculate_habitable_zone\<close>, as functions of
  \<open>t_star = teff - 5780\<close>; a source literal \<open>1.4335e-4\<close> is written \<open>1.4335 / 10 ^ 4\<close>.
\<close>

definition s_recent_venus :: "real \<Rightarrow> real" where
  "s_recent_venus t_star =
     1.7763 + 1.4335 / 10 ^ 4 * t_star + 3.3954 / 10 ^ 9 * t_star ^ 2
       - 7.6364 / 10 ^ 12 * t_star ^ 3 - 1.1950 / 10 ^ 15 * t_star ^ 4"

definition s_runaway :: "real \<Rightarrow> real" where
  "s_runaway t_star =
     1.0385 + 1.2456 / 10 ^ 4 * t_star + 1.4612 / 10 ^ 8 * t_star ^ 2
       - 7.6345 / 10 ^ 12 * t_star ^ 3 - 1.7511 / 10 ^ 15 * t_star ^ 4"

definition s_max_greenhouse :: "real \<Rightarrow> real" where
  "s_max_greenhouse t_star =
     0.3507 + 5.9578 / 10 ^ 5 * t_star + 1.6707 / 10 ^ 9 * t_star ^ 2
       - 3.0058 / 10 ^ 12 * t_star ^ 3 - 5.1925 / 10 ^ 16 * t_star ^ 4"

definition s_early_mars :: "real \<Rightarrow> real" where
  "s_early_mars t_star =
     0.3207 + 5.4471 / 10 ^ 5 * t_star + 1.5275 / 10 ^ 9 * t_star ^ 2
       - 2.1709 / 10 ^ 12 * t_star ^ 3 - 3.8282 / 10 ^ 16 * t_star ^ 4"

text \<open>
  \<open>self.temperature_k if self.temperature_k else self.SOLAR_TEMP_K\<close>, which the derived
  factors write \<open>star.temperature_k or 5778\<close>: an absent temperature and the temperature 0
  are both falsy.
\<close>

definition temperature_or_solar :: "StarEntity \<Rightarrow> real" where
  "temperature_or_solar star =
     (case temperature_k star of
        None \<Rightarrow> SOLAR_TEMP_K
      | Some t \<Rightarrow> if t = 0 then SOLAR_TEMP_K else t)"

text \<open>
  The result is \<open>(conservative_inner, conservative_outer, optimistic_inner, optimistic_outer)\<close>.
  \<open>math.sqrt(luminosity)\<close> raises on a negative luminosity.
\<close>

definition calculate_habitable_zone :: "StarEntity \<Rightarrow> error + (real \<times> real \<times> real \<times> real) option" where
  "calculate_habitable_zone star =
     (case estimate_luminosity star of
        None \<Rightarrow> Inr None
      | Some luminosity \<Rightarrow>
          (let t_star = temperature_or_solar star - 5780 in
           if luminosity < 0 then Inl (ValueError ''math domain error'')
           else
             (let sqrt_l = sqrt luminosity in
              if 0 < s_runaway t_star \<and> 0 < s_max_greenhouse t_star
                 \<and> 0 < s_recent_venus t_star \<and> 0 < s_early_mars t_star
              then Inr (Some (sqrt_l / sqrt (s_runaway t_star),
                              sqrt_l / sqrt (s_max_greenhouse t_star),
                              sqrt_l / sqrt (s_recent_venus t_star),
                              sqrt_l / sqrt (s_early_mars t_star)))
              else Inr None)))"

definition get_hz_position :: "StarEntity \<Rightarrow> real \<Rightarrow> error + string option" where
  "get_hz_position star distance_au =
     (case calculate_habitable_zone star of
        Inl e \<Rightarrow> Inl e
      | Inr None \<Rightarrow> Inr None
      | Inr (Some (cons_inner, cons_outer, opt_inner, opt_outer)) \<Rightarrow>
          Inr (Some (if distance_au < opt_inner then ''too_hot''
                     else if distance_au < cons_inner then ''optimistic_inner_edge''
                     else if distance_au \<le> cons_outer then ''conservative_hz''
                     else if distance_au \<le> opt_outer then ''optimistic_outer_edge''
                     else ''too_cold'')))"

section \<open>Assessment entities (app/domain/entities/habitability.py)\<close>

datatype ConfidenceLevel = VERY_LOW | LOW | MEDIUM | HIGH | VERY_HIGH

text \<open>
  An explanation is either a text the model spells out in full, or one of the source's
  prose passages (most of them f-strings over floats). The wording and the number
  formatting of a passage take no part in scoring, so \<open>Prose t vs\<close> records which passage
  it is (\<open>t\<close> quotes its distinguishing words) and the values \<open>vs\<close> interpolated into it.
\<close>

datatype explanation = Text string | Prose string "real list"

text \<open>
  \<open>FactorScore\<close> and \<open>HabitabilityAssessment\<close>. The display strings \<open>input_value\<close>,
  \<open>input_unit\<close>, \<open>optimal_range\<close> and \<open>references\<close> are copied from the factor result
  unchanged and are left out, here and in \<open>FactorResult\<close>.
\<close>

record FactorScore =
  fs_factor_id :: string
  factor_name :: string
  category :: string
  raw_score :: real
  weight :: real
  weighted_score :: real
  fs_explanation :: explanation
  fs_confidence :: ConfidenceLevel

record HabitabilityAssessment =
  exoplanet_id :: int
  exoplanet_name :: string
  host_star_name :: string
  total_score :: real
  factor_scores :: "FactorScore list"
  data_completeness :: real
  missing_parameters :: "string list"
  scoring_version :: string

section \<open>Factor contract (app/domain/scoring/base.py)\<close>

datatype FactorCategory = STELLAR | PLANETARY | ORBITAL | ATMOSPHERIC | DERIVED

fun category_value :: "FactorCategory \<Rightarrow> string" where
  "category_value STELLAR = ''stellar''"
| "category_value PLANETARY = ''planetary''"
| "category_value ORBITAL = ''orbital''"
| "category_value ATMOSPHERIC = ''atmospheric''"
| "category_value DERIVED = ''derived''"

record FactorResult =
  factor_id :: string
  score :: real
  explanation :: explanation
  confidence :: ConfidenceLevel
  is_applicable :: bool
  missing_data :: "string option"

text \<open>The dataclass constructor; \<open>__post_init__\<close> clamps the score into \<open>[0, 1]\<close>.\<close>

definition FactorResult_init ::
  "string \<Rightarrow> real \<Rightarrow> explanation \<Rightarrow> ConfidenceLevel \<Rightarrow> bool \<Rightarrow> string option \<Rightarrow> FactorResult" where
  "FactorResult_init fid s ex c a m =
     \<lparr>factor_id = fid, score = max 0 (min 1 s), explanation = ex, confidence = c,
      is_applicable = a, missing_data = m\<rparr>"

text \<open>
  A scoring factor as the engine sees it: its identity and its \<open>evaluate\<close>, which returns a
  result or raises.
\<close>

record ScoringFactor =
  sf_factor_id :: string
  sf_factor_name :: string
  sf_category :: FactorCategory
  sf_evaluate :: "ExoplanetEntity \<Rightarrow> StarEntity \<Rightarrow> error + FactorResult"

text \<open>\<open>BaseScoringFactor._create_missing_data_result\<close>, for the factor with id \<open>fid\<close>.\<close>

definition create_missing_data_result :: "string \<Rightarrow> string \<Rightarrow> FactorResult" where
  "create_missing_data_result fid missing_field =
     FactorResult_init fid 0.5
       (Text (''Required data '' @ [CHR 0x27] @ missing_field @ [CHR 0x27]
              @ '' is not available. Assigned neutral score.''))
       VERY_LOW False (Some missing_field)"

section \<open>Planetary factors (app/domain/scoring/factors/planetary.py)\<close>

definition PlanetRadiusFactor_evaluate :: "ExoplanetEntity \<Rightarrow> StarEntity \<Rightarrow> error + FactorResult" where
  "PlanetRadiusFactor_evaluate exoplanet star =
     (case radius_earth (physical exoplanet) of
        None \<Rightarrow> Inr (create_missing_data_result ''planet_radius'' ''planet_radius_earth'')
      | Some radius \<Rightarrow>
          (let (score, explanation) =
             (if radius < 0.5 then (0.3, Prose ''significantly smaller than Earth'' [radius])
              else if radius < 0.8 then (0.6, Prose ''a Mars-to-Earth sized world'' [radius])
              else if radius < 1.25 then (1.0, Prose ''is Earth-like'' [radius])
              else if radius < 1.75 then (0.85, Prose ''indicates a super-Earth'' [radius])
              else if radius < 2.5 then (0.4, Prose ''in the sub-Neptune regime'' [radius])
              else if radius < 4.0 then (0.15, Prose ''indicates a Neptune-like world'' [radius])
              else (0.05, Prose ''indicates a gas giant'' [radius]))
           in Inr (FactorResult_init ''planet_radius'' score explanation HIGH True None)))"

definition PlanetRadiusFactor :: ScoringFactor where
  "PlanetRadiusFactor =
     \<lparr>sf_factor_id = ''planet_radius'', sf_factor_name = ''Planet Radius'',
      sf_category = PLANETARY, sf_evaluate = PlanetRadiusFactor_evaluate\<rparr>"

definition PlanetMassFactor_evaluate :: "ExoplanetEntity \<Rightarrow> StarEntity \<Rightarrow> error + FactorResult" where
  "PlanetMassFactor_evaluate exoplanet star =
     (case mass_earth (physical exoplanet) of
        None \<Rightarrow> Inr (create_missing_data_result ''planet_mass'' ''planet_mass_earth'')
      | Some mass \<Rightarrow>
          (let (score, explanation) =
             (if mass < 0.1 then (0.15, Prose ''is very low, similar to Mars'' [mass])
              else if mass < 0.5 then (0.4, Prose ''is sub-Earth'' [mass])
              else if mass < 2.0 then (1.0, Prose ''is Earth-like'' [mass])
              else if mass < 5.0 then (0.8, Prose ''indicates a super-Earth'' [mass])
              else if mass < 10.0 then (0.4, Prose ''upper limit for rocky planets'' [mass])
              else (0.1, Prose ''a mini-Neptune or larger'' [mass]))
           in Inr (FactorResult_init ''planet_mass'' score explanation HIGH True None)))"

definition PlanetMassFactor :: ScoringFactor where
  "PlanetMassFactor =
     \<lparr>sf_factor_id = ''planet_mass'', sf_factor_name = ''Planet Mass'',
      sf_category = PLANETARY, sf_evaluate = PlanetMassFactor_evaluate\<rparr>"

definition PlanetDensityFactor_evaluate :: "ExoplanetEntity \<Rightarrow> StarEntity \<Rightarrow> error + FactorResult" where
  "PlanetDensityFactor_evaluate exoplanet star =
     (case estimate_density (physical exoplanet) of
        Inl e \<Rightarrow> Inl e
      | Inr None \<Rightarrow> Inr (create_missing_data_result ''planet_density'' ''planet_density'')
      | Inr (Some density) \<Rightarrow>
          (let (score, explanation) =
             (if density < 1.0 then (0.05, Prose ''a gas-dominated composition'' [density])
              else if density < 2.0 then (0.2, Prose ''significant volatile content'' [density])
              else if density < 3.5 then (0.5, Prose ''an ice-rock mixture'' [density])
              else if density < 5.0 then (0.85, Prose ''rocky composition similar to Mars'' [density])
              else if density < 6.5 then (1.0, Prose ''is Earth-like'' [density])
              else (0.7, Prose ''an iron-rich composition'' [density]))
           in Inr (FactorResult_init ''planet_density'' score explanation MEDIUM True None)))"

definition PlanetDensityFactor :: ScoringFactor where
  "PlanetDensityFactor =
     \<lparr>sf_factor_id = ''planet_density'', sf_factor_name = ''Planet Bulk Density'',
      sf_category = PLANETARY, sf_evaluate = PlanetDensityFactor_evaluate\<rparr>"

definition EquilibriumTemperatureFactor_evaluate :: "ExoplanetEntity \<Rightarrow> StarEntity \<Rightarrow> error + FactorResult" where
  "EquilibriumTemperatureFactor_evaluate exoplanet star =
     (case equilibrium_temp_k (physical exoplanet) of
        None \<Rightarrow> Inr (create_missing_data_result ''equilibrium_temperature'' ''equilibrium_temp_k'')
      | Some temp \<Rightarrow>
          (let (score, explanation) =
             (if temp < 150 then (0.05, Prose ''is extremely cold'' [temp])
              else if temp < 200 then (0.3, Prose ''is very cold'' [temp])
              else if temp < 230 then (0.6, Prose ''at the outer edge of habitability'' [temp])
              else if temp < 260 then (0.9, Prose ''in the optimal range'' [temp])
              else if temp < 300 then (1.0, Prose ''excellent for habitability'' [temp])
              else if temp < 350 then (0.6, Prose ''is warm'' [temp])
              else if temp < 450 then (0.2, Prose ''is hot'' [temp])
              else (0.02, Prose ''is extremely hot'' [temp]))
           in Inr (FactorResult_init ''equilibrium_temperature'' score explanation MEDIUM True None)))"

definition EquilibriumTemperatureFactor :: ScoringFactor where
  "EquilibriumTemperatureFactor =
     \<lparr>sf_factor_id = ''equilibrium_temperature'', sf_factor_name = ''Equilibrium Temperature'',
      sf_category = PLANETARY, sf_evaluate = EquilibriumTemperatureFactor_evaluate\<rparr>"

definition SurfaceGravityFactor_evaluate :: "ExoplanetEntity \<Rightarrow> StarEntity \<Rightarrow> error + FactorResult" where
  "SurfaceGravityFactor_evaluate exoplanet star =
     (case surface_gravity_earth (physical exoplanet) of
        Inl e \<Rightarrow> Inl e
      | Inr None \<Rightarrow> Inr (create_missing_data_result ''surface_gravity'' ''surface_gravity'')
      | Inr (Some gravity) \<Rightarrow>
          (let (score, explanation) =
             (if gravity < 0.3 then (0.3, Prose ''is very low'' [gravity])
              else if gravity < 0.7 then (0.6, Prose ''below Earth's but potentially habitable'' [gravity])
              else if gravity < 1.5 then (1.0, Prose ''is Earth-like'' [gravity])
              else if gravity < 2.5 then (0.7, Prose ''elevated but potentially habitable'' [gravity])
              else if gravity < 4.0 then (0.3, Prose ''is very high'' [gravity])
              else (0.1, Prose ''is extreme'' [gravity]))
           in Inr (FactorResult_init ''surface_gravity'' score explanation MEDIUM True None)))"

definition SurfaceGravityFactor :: ScoringFactor where
  "SurfaceGravityFactor =
     \<lparr>sf_factor_id = ''surface_gravity'', sf_factor_name = ''Surface Gravity'',
      sf_category = PLANETARY, sf_evaluate = SurfaceGravityFactor_evaluate\<rparr>"

section \<open>Stellar factors (app/domain/scoring/factors/stellar.py)\<close>

fun SPECTRAL_SCORES :: "SpectralClass \<Rightarrow> real" where
  "SPECTRAL_SCORES SpectralClass_O = 0.05"
| "SPECTRAL_SCORES SpectralClass_B = 0.10"
| "SPECTRAL_SCORES SpectralClass_A = 0.20"
| "SPECTRAL_SCORES SpectralClass_F = 0.60"
| "SPECTRAL_SCORES SpectralClass_G = 0.95"
| "SPECTRAL_SCORES SpectralClass_K = 0.90"
| "SPECTRAL_SCORES SpectralClass_M = 0.45"
| "SPECTRAL_SCORES SpectralClass_L = 0.10"
| "SPECTRAL_SCORES SpectralClass_T = 0.05"
| "SPECTRAL_SCORES SpectralClass_Y = 0.02"
| "SPECTRAL_SCORES SpectralClass_UNKNOWN = 0.50"

fun SPECTRAL_EXPLANATIONS :: "SpectralClass \<Rightarrow> explanation" where
  "SPECTRAL_EXPLANATIONS SpectralClass_O = Prose ''O-type stars'' []"
| "SPECTRAL_EXPLANATIONS SpectralClass_B = Prose ''B-type stars'' []"
| "SPECTRAL_EXPLANATIONS SpectralClass_A = Prose ''A-type stars'' []"
| "SPECTRAL_EXPLANATIONS SpectralClass_F = Prose ''F-type stars'' []"
| "SPECTRAL_EXPLANATIONS SpectralClass_G = Prose ''G-type stars like our Sun'' []"
| "SPECTRAL_EXPLANATIONS SpectralClass_K = Prose ''K-type orange dwarfs'' []"
| "SPECTRAL_EXPLANATIONS SpectralClass_M = Prose ''M-type red dwarfs'' []"
| "SPECTRAL_EXPLANATIONS SpectralClass_L = Prose ''L-type objects'' []"
| "SPECTRAL_EXPLANATIONS SpectralClass_T = Prose ''T-type brown dwarfs'' []"
| "SPECTRAL_EXPLANATIONS SpectralClass_Y = Prose ''Y-type objects'' []"
| "SPECTRAL_EXPLANATIONS SpectralClass_UNKNOWN = Prose ''Stellar spectral type is unknown'' []"

text \<open>\<open>if not star.spectral_type\<close>: an absent and an empty spectral type are both falsy.\<close>

definition StellarTypeFactor_evaluate :: "ExoplanetEntity \<Rightarrow> StarEntity \<Rightarrow> error + FactorResult" where
  "StellarTypeFactor_evaluate exoplanet star =
     (if spectral_type star = None \<or> spectral_type star = Some []
      then Inr (create_missing_data_result ''stellar_type'' ''stellar_type'')
      else
        (let spectral_class = spectral_class star;
             score = SPECTRAL_SCORES spectral_class;
             explanation = SPECTRAL_EXPLANATIONS spectral_class;
             confidence =
               (if spectral_class \<in> {SpectralClass_F, SpectralClass_G, SpectralClass_K, SpectralClass_M}
                then HIGH
                else if spectral_class = SpectralClass_UNKNOWN then VERY_LOW
                else MEDIUM)
         in Inr (FactorResult_init ''stellar_type'' score explanation confidence True None)))"

definition StellarTypeFactor :: ScoringFactor where
  "StellarTypeFactor =
     \<lparr>sf_factor_id = ''stellar_type'', sf_factor_name = ''Stellar Spectral Type'',
      sf_category = STELLAR, sf_evaluate = StellarTypeFactor_evaluate\<rparr>"

fun LUMINOSITY_SCORES :: "LuminosityClass \<Rightarrow> real" where
  "LUMINOSITY_SCORES LuminosityClass_V = 1.0"
| "LUMINOSITY_SCORES LuminosityClass_IV = 0.5"
| "LUMINOSITY_SCORES LuminosityClass_VI = 0.7"
| "LUMINOSITY_SCORES LuminosityClass_III = 0.2"
| "LUMINOSITY_SCORES LuminosityClass_II = 0.1"
| "LUMINOSITY_SCORES LuminosityClass_Ib = 0.05"
| "LUMINOSITY_SCORES LuminosityClass_Ia = 0.02"
| "LUMINOSITY_SCORES LuminosityClass_VII = 0.1"
| "LUMINOSITY_SCORES LuminosityClass_UNKNOWN = 0.5"

text \<open>
  \<open>StellarLuminosityFactor.evaluate\<close> has no missing-data exit: a star without a spectral
  type has luminosity class \<open>UNKNOWN\<close> and is scored by the \<open>UNKNOWN\<close> branch.
\<close>

definition StellarLuminosityFactor_evaluate :: "ExoplanetEntity \<Rightarrow> StarEntity \<Rightarrow> error + FactorResult" where
  "StellarLuminosityFactor_evaluate exoplanet star =
     (let luminosity_class = luminosity_class star;
          score = LUMINOSITY_SCORES luminosity_class;
          (explanation, confidence) =
            (if luminosity_class = LuminosityClass_V
             then (Prose ''a main-sequence dwarf (class V)'' [], HIGH)
             else if luminosity_class = LuminosityClass_IV
             then (Prose ''a subgiant (class IV)'' [], MEDIUM)
             else if luminosity_class \<in> {LuminosityClass_III, LuminosityClass_II}
             then (Prose ''an evolved giant'' [], HIGH)
             else if luminosity_class \<in> {LuminosityClass_Ia, LuminosityClass_Ib}
             then (Prose ''a supergiant'' [], HIGH)
             else if luminosity_class = LuminosityClass_UNKNOWN
             then (Prose ''Luminosity class unknown'' [], LOW)
             else (Prose ''Stellar luminosity class:'' [], MEDIUM))
      in Inr (FactorResult_init ''stellar_luminosity'' score explanation confidence True None))"

definition StellarLuminosityFactor :: ScoringFactor where
  "StellarLuminosityFactor =
     \<lparr>sf_factor_id = ''stellar_luminosity'', sf_factor_name = ''Stellar Luminosity Class'',
      sf_category = STELLAR, sf_evaluate = StellarLuminosityFactor_evaluate\<rparr>"

definition StellarAgeFactor_evaluate :: "ExoplanetEntity \<Rightarrow> StarEntity \<Rightarrow> error + FactorResult" where
  "StellarAgeFactor_evaluate exoplanet star =
     (case age_gyr star of
        None \<Rightarrow> Inr (create_missing_data_result ''stellar_age'' ''stellar_age_gyr'')
      | Some age \<Rightarrow>
          (let (score, explanation) =
             (if age < 0.5 then (0.2, Prose ''The system is very young'' [age])
              else if age < 1.0 then (0.4, Prose ''The system is relatively young'' [age])
              else if age < 2.0 then (0.7, Prose ''approaching optimal for habitability'' [age])
              else if age < 8.0 then (1.0, Prose ''in the optimal range for habitability'' [age])
              else if age < 10.0 then (0.7, Prose ''The system is mature'' [age])
              else (0.4, Prose ''The system is very old'' [age]))
           in Inr (FactorResult_init ''stellar_age'' score explanation MEDIUM True None)))"

definition StellarAgeFactor :: ScoringFactor where
  "StellarAgeFactor =
     \<lparr>sf_factor_id = ''stellar_age'', sf_factor_name = ''Stellar System Age'',
      sf_category = STELLAR, sf_evaluate = StellarAgeFactor_evaluate\<rparr>"

text \<open>
  \<open>HabitableZonePositionFactor.evaluate\<close>. The two relative distances divide by a zone
  boundary, which is 0 for a star of luminosity 0. The confidence \<open>HIGH if hz else LOW\<close> is
  \<open>HIGH\<close>, a 4-tuple being truthy.
\<close>

definition HabitableZonePositionFactor_evaluate :: "ExoplanetEntity \<Rightarrow> StarEntity \<Rightarrow> error + FactorResult" where
  "HabitableZonePositionFactor_evaluate exoplanet star =
     (case semi_major_axis_au (orbital exoplanet) of
        None \<Rightarrow> Inr (create_missing_data_result ''habitable_zone_position'' ''semi_major_axis_au'')
      | Some distance_au \<Rightarrow>
          (case calculate_habitable_zone star of
             Inl e \<Rightarrow> Inl e
           | Inr None \<Rightarrow>
               Inr (FactorResult_init ''habitable_zone_position'' 0.5
                      (Text ''Cannot calculate habitable zone without stellar luminosity data.'')
                      VERY_LOW False (Some ''stellar_luminosity''))
           | Inr (Some (cons_inner, cons_outer, opt_inner, opt_outer)) \<Rightarrow>
               (case get_hz_position star distance_au of
                  Inl e \<Rightarrow> Inl e
                | Inr position \<Rightarrow>
                    if position = Some ''conservative_hz''
                    then Inr (FactorResult_init ''habitable_zone_position'' 1.0
                                (Prose ''firmly within the conservative habitable zone''
                                   [distance_au, cons_inner, cons_outer]) HIGH True None)
                    else if position = Some ''optimistic_inner_edge''
                    then Inr (FactorResult_init ''habitable_zone_position'' 0.7
                                (Prose ''in the optimistic inner habitable zone''
                                   [distance_au, opt_inner, cons_inner]) HIGH True None)
                    else if position = Some ''optimistic_outer_edge''
                    then Inr (FactorResult_init ''habitable_zone_position'' 0.7
                                (Prose ''in the optimistic outer habitable zone''
                                   [distance_au, cons_outer, opt_outer]) HIGH True None)
                    else if position = Some ''too_hot''
                    then
                      (if opt_inner = 0 then Inl (ZeroDivisionError ''float division by zero'')
                       else
                         (let excess = (opt_inner - distance_au) / opt_inner
                          in Inr (FactorResult_init ''habitable_zone_position'' (max 0.0 (0.3 - excess))
                                    (Prose ''inside the habitable zone'' [distance_au, opt_inner])
                                    HIGH True None)))
                    else if position = Some ''too_cold''
                    then
                      (if opt_outer = 0 then Inl (ZeroDivisionError ''float division by zero'')
                       else
                         (let excess = (distance_au - opt_outer) / opt_outer
                          in Inr (FactorResult_init ''habitable_zone_position'' (max 0.0 (0.3 - excess * 0.5))
                                    (Prose ''outside the habitable zone'' [distance_au, opt_outer])
                                    HIGH True None)))
                    else Inr (FactorResult_init ''habitable_zone_position'' 0.5
                                (Prose ''HZ position uncertain'' [distance_au]) HIGH True None))))"

definition HabitableZonePositionFactor :: ScoringFactor where
  "HabitableZonePositionFactor =
     \<lparr>sf_factor_id = ''habitable_zone_position'', sf_factor_name = ''Habitable Zone Position'',
      sf_category = STELLAR, sf_evaluate = HabitableZonePositionFactor_evaluate\<rparr>"

section \<open>Orbital factors (app/domain/scoring/factors/orbital.py)\<close>

text \<open>
  \<open>flux_ratio\<close> is \<open>((1 + ecc) / (1 - ecc)) ** 2\<close> for \<open>ecc < 1\<close> and infinite otherwise; it is
  interpolated only by the branches below 0.8, where it is finite.
\<close>

definition OrbitalEccentricityFactor_evaluate :: "ExoplanetEntity \<Rightarrow> StarEntity \<Rightarrow> error + FactorResult" where
  "OrbitalEccentricityFactor_evaluate exoplanet star =
     (case eccentricity (orbital exoplanet) of
        None \<Rightarrow> Inr (create_missing_data_result ''orbital_eccentricity'' ''orbital_eccentricity'')
      | Some ecc \<Rightarrow>
          (let flux_ratio = ((1 + ecc) / (1 - ecc)) ^ 2;
               (score, explanation) =
                 (if ecc < 0.02 then (1.0, Prose ''is nearly circular'' [ecc, (flux_ratio - 1) * 100])
                  else if ecc < 0.1 then (0.9, Prose ''is low'' [ecc, (flux_ratio - 1) * 100])
                  else if ecc < 0.2
                    then (0.7, Prose ''is moderate, similar to Mercury (e=0.206)'' [ecc, (flux_ratio - 1) * 100])
                  else if ecc < 0.3 then (0.5, Prose ''is high'' [ecc, (flux_ratio - 1) * 100])
                  else if ecc < 0.5 then (0.25, Prose ''is very high'' [ecc, (flux_ratio - 1) * 100])
                  else if ecc < 0.8 then (0.1, Prose ''is extreme'' [ecc, (flux_ratio - 1) * 100])
                  else (0.02, Prose ''is near-parabolic'' [ecc]))
           in Inr (FactorResult_init ''orbital_eccentricity'' score explanation HIGH True None)))"

definition OrbitalEccentricityFactor :: ScoringFactor where
  "OrbitalEccentricityFactor =
     \<lparr>sf_factor_id = ''orbital_eccentricity'', sf_factor_name = ''Orbital Eccentricity'',
      sf_category = ORBITAL, sf_evaluate = OrbitalEccentricityFactor_evaluate\<rparr>"

definition TidalLockingFactor_evaluate :: "ExoplanetEntity \<Rightarrow> StarEntity \<Rightarrow> error + FactorResult" where
  "TidalLockingFactor_evaluate exoplanet star =
     (let orbital_period = period_days (orbital exoplanet);
          semi_major_axis = semi_major_axis_au (orbital exoplanet)
      in
      if orbital_period = None \<and> semi_major_axis = None
      then Inr (create_missing_data_result ''tidal_locking'' ''orbital_period or semi_major_axis'')
      else
        (let lock_probability =
           (case semi_major_axis of
              Some a \<Rightarrow>
                (case temperature_k star of
                   Some teff \<Rightarrow>
                     if teff < 3700 then
                       (if a < 0.05 then 0.99
                        else if a < 0.1 then 0.95
                        else if a < 0.2 then 0.7
                        else if a < 0.5 then 0.3
                        else 0.05)
                     else if teff < 5200 then
                       (if a < 0.1 then 0.8
                        else if a < 0.3 then 0.4
                        else if a < 0.5 then 0.1
                        else 0.02)
                     else if teff < 6000 then
                       (if a < 0.1 then 0.5
                        else if a < 0.3 then 0.1
                        else 0.01)
                     else 0.01
                 | None \<Rightarrow> max 0 (1 - (a / 0.3)))
            | None \<Rightarrow>
                (case orbital_period of
                   Some period \<Rightarrow>
                     if period < 10 then 0.9
                     else if period < 30 then 0.5
                     else if period < 100 then 0.2
                     else 0.05
                 | None \<Rightarrow> 0.0));
             (score, status) =
               (if lock_probability < 0.1 then (1.0, ''Tidal locking very unlikely.'')
                else if lock_probability < 0.3 then (0.9, ''Tidal locking unlikely.'')
                else if lock_probability < 0.5 then (0.7, ''Tidal locking possible.'')
                else if lock_probability < 0.7 then (0.6, ''Tidal locking likely.'')
                else if lock_probability < 0.9 then (0.5, ''Tidal locking very likely.'')
                else (0.4, ''Tidal locking essentially certain.''))
         in Inr (FactorResult_init ''tidal_locking'' score (Prose status [lock_probability])
                   LOW True None)))"

definition TidalLockingFactor :: ScoringFactor where
  "TidalLockingFactor =
     \<lparr>sf_factor_id = ''tidal_locking'', sf_factor_name = ''Tidal Locking Potential'',
      sf_category = ORBITAL, sf_evaluate = TidalLockingFactor_evaluate\<rparr>"

section \<open>Derived factors (app/domain/scoring/factors/derived.py)\<close>

text \<open>
  The escape-velocity ratio \<open>math.sqrt(mass / radius)\<close> of \<open>AtmosphereRetentionFactor\<close>,
  with the power-law fallbacks \<open>mass ** 0.27\<close> and \<open>radius ** 3.7\<close> when one of the two is
  absent. A negative float raised to a fractional power is a \<open>complex\<close> in Python, which
  \<open>math.sqrt\<close> rejects with \<open>TypeError\<close>; the power of 0 is 0 and the division by it raises.
  The factor returns its missing-data result before this is computed when both are absent.
\<close>

definition escape_vel_ratio :: "real option \<Rightarrow> real option \<Rightarrow> error + real" where
  "escape_vel_ratio mass radius =
     (case (mass, radius) of
        (Some m, Some r) \<Rightarrow>
          if r = 0 then Inl (ZeroDivisionError ''float division by zero'')
          else if m / r < 0 then Inl (ValueError ''math domain error'')
          else Inr (sqrt (m / r))
      | (Some m, None) \<Rightarrow>
          if m < 0 then Inl (TypeError ''must be real number, not complex'')
          else if m powr 0.27 = 0 then Inl (ZeroDivisionError ''float division by zero'')
          else Inr (sqrt (m / m powr 0.27))
      | (None, Some r) \<Rightarrow>
          if r < 0 then Inl (TypeError ''must be real number, not complex'')
          else if r = 0 then Inl (ZeroDivisionError ''float division by zero'')
          else Inr (sqrt (r powr 3.7 / r))
      | (None, None) \<Rightarrow> Inr 0)"

definition AtmosphereRetentionFactor_evaluate :: "ExoplanetEntity \<Rightarrow> StarEntity \<Rightarrow> error + FactorResult" where
  "AtmosphereRetentionFactor_evaluate exoplanet star =
     (let mass = mass_earth (physical exoplanet);
          radius = radius_earth (physical exoplanet)
      in
      if mass = None \<and> radius = None
      then Inr (create_missing_data_result ''atmosphere_retention'' ''planet_mass or planet_radius'')
      else
        (case escape_vel_ratio mass radius of
           Inl e \<Rightarrow> Inl e
         | Inr ratio \<Rightarrow>
             (let escape_vel_kms = 11.2 * ratio;
                  stellar_teff = temperature_or_solar star;
                  stellar_age = age_gyr star;
                  penalty0 =
                    (if stellar_teff < 3700 then 0.2
                     else if stellar_teff < 4500 then 0.1
                     else 0.0);
                  stellar_activity_penalty =
                    (case stellar_age of
                       Some age \<Rightarrow> if age < 1.0 then penalty0 + 0.15 else penalty0
                     | None \<Rightarrow> penalty0);
                  (base_score, escape_note) =
                    (if escape_vel_kms < 3.0 then (0.1, ''Very low escape velocity'')
                     else if escape_vel_kms < 5.0 then (0.3, ''Low escape velocity'')
                     else if escape_vel_kms < 8.0 then (0.6, ''Moderate escape velocity'')
                     else if escape_vel_kms < 12.0 then (0.85, ''Earth-like escape velocity'')
                     else if escape_vel_kms < 20.0 then (0.95, ''High escape velocity'')
                     else (0.8, ''Very high escape velocity''));
                  score = max 0.05 (base_score - stellar_activity_penalty)
              in Inr (FactorResult_init ''atmosphere_retention'' score
                        (Prose escape_note [escape_vel_kms]) MEDIUM True None))))"

definition AtmosphereRetentionFactor :: ScoringFactor where
  "AtmosphereRetentionFactor =
     \<lparr>sf_factor_id = ''atmosphere_retention'', sf_factor_name = ''Atmosphere Retention Potential'',
      sf_category = DERIVED, sf_evaluate = AtmosphereRetentionFactor_evaluate\<rparr>"

text \<open>
  \<open>MagneticFieldPotentialFactor.evaluate\<close> calls \<open>estimate_density()\<close> before it tests for
  missing data. Its \<open>factor_id\<close> is \<open>magnetic_field\<close>.
\<close>

definition MagneticFieldPotentialFactor_evaluate :: "ExoplanetEntity \<Rightarrow> StarEntity \<Rightarrow> error + FactorResult" where
  "MagneticFieldPotentialFactor_evaluate exoplanet star =
     (let mass = mass_earth (physical exoplanet) in
      case estimate_density (physical exoplanet) of
        Inl e \<Rightarrow> Inl e
      | Inr density \<Rightarrow>
          (let radius = radius_earth (physical exoplanet);
               stellar_age = age_gyr star
           in
           if mass = None \<and> radius = None
           then Inr (create_missing_data_result ''magnetic_field'' ''planet_mass or planet_radius'')
           else
             (let mass_score =
                (case mass of
                   Some m \<Rightarrow>
                     if m < 0.2 then 0.2
                     else if m < 0.5 then 0.4
                     else if m < 1.5 then 0.8
                     else if m < 5.0 then 0.9
                     else 0.7
                 | None \<Rightarrow>
                     (case radius of
                        Some r \<Rightarrow>
                          if r < 0.7 then 0.3
                          else if r < 1.3 then 0.75
                          else 0.6
                      | None \<Rightarrow> 0.5));
                  density_bonus =
                    (case density of
                       Some d \<Rightarrow>
                         if d > 5.0 then 0.1
                         else if d > 4.0 then 0.05
                         else if d < 2.5 then - 0.2
                         else 0.0
                     | None \<Rightarrow> 0.0);
                  age_penalty =
                    (case stellar_age of
                       Some age \<Rightarrow>
                         if age > 10.0 then 0.15
                         else if age > 8.0 then 0.05
                         else if age < 0.5 then 0.1
                         else 0.0
                     | None \<Rightarrow> 0.0);
                  tidal_adjustment =
                    (case period_days (orbital exoplanet) of
                       Some period \<Rightarrow>
                         if period < 30 then
                           (if temperature_or_solar star < 4000 then - 0.1 else 0.0)
                         else 0.0
                     | None \<Rightarrow> 0.0);
                  score = max 0.05 (min 1.0 (mass_score + density_bonus - age_penalty + tidal_adjustment));
                  summary =
                    (if score \<ge> 0.7 then ''Magnetic field likely present''
                     else if score \<ge> 0.4 then ''Magnetic field possible but uncertain''
                     else ''Magnetic field unlikely'')
              in Inr (FactorResult_init ''magnetic_field'' score (Prose summary [score])
                        LOW True None))))"

definition MagneticFieldPotentialFactor :: ScoringFactor where
  "MagneticFieldPotentialFactor =
     \<lparr>sf_factor_id = ''magnetic_field'', sf_factor_name = ''Magnetic Field Potential'',
      sf_category = DERIVED, sf_evaluate = MagneticFieldPotentialFactor_evaluate\<rparr>"

section \<open>The factor package (app/domain/scoring/factors/__init__.py)\<close>

definition get_all_factors :: "ScoringFactor list" where
  "get_all_factors =
     [StellarTypeFactor, StellarLuminosityFactor, StellarAgeFactor, HabitableZonePositionFactor,
      PlanetRadiusFactor, PlanetMassFactor, PlanetDensityFactor, EquilibriumTemperatureFactor,
      SurfaceGravityFactor,
      OrbitalEccentricityFactor, TidalLockingFactor,
      AtmosphereRetentionFactor, MagneticFieldPotentialFactor]"

section \<open>Scoring engine (app/domain/scoring/engine.py)\<close>

definition VERSION :: string where
  "VERSION = ''2.0.0''"

text \<open>
  The engine holds its configuration and the registry \<open>_factors\<close>, a dictionary from factor
  id to factor. Assigning to a key that is present keeps its position, as \<open>AList.update\<close>
  does.
\<close>

record ScoringEngine =
  config :: ScoringConfig
  factors :: "(string \<times> ScoringFactor) list"

definition register_factor :: "ScoringEngine \<Rightarrow> ScoringFactor \<Rightarrow> ScoringEngine" where
  "register_factor eng factor =
     eng\<lparr>factors := AList.update (sf_factor_id factor) factor (factors eng)\<rparr>"

definition ScoringEngine_init :: "ScoringConfig option \<Rightarrow> ScoringFactor list \<Rightarrow> ScoringEngine" where
  "ScoringEngine_init cfg fs =
     foldl register_factor
       \<lparr>config = (case cfg of Some c \<Rightarrow> c | None \<Rightarrow> load_default_config), factors = []\<rparr>
       fs"

definition create_default_engine :: ScoringEngine where
  "create_default_engine = foldl register_factor (ScoringEngine_init None []) get_all_factors"

text \<open>\<open>normalized_weights.get(factor_id, 0.1)\<close>.\<close>

definition lookup_weight :: "(string \<times> real) list \<Rightarrow> string \<Rightarrow> real" where
  "lookup_weight normalized_weights fid =
     (case map_of normalized_weights fid of Some w \<Rightarrow> w | None \<Rightarrow> 0.1)"

text \<open>
  The \<open>FactorScore\<close> that one pass of the loop of \<open>evaluate\<close> appends, from the outcome of
  \<open>factor.evaluate\<close>: the \<open>try\<close> body builds it from the result, the \<open>except Exception\<close>
  handler builds the degraded score, whose \<open>weighted_score\<close> is the literal \<open>0.05\<close>.
\<close>

definition factor_score_of ::
  "(string \<times> real) list \<Rightarrow> string \<Rightarrow> ScoringFactor \<Rightarrow> error + FactorResult \<Rightarrow> FactorScore" where
  "factor_score_of normalized_weights fid factor outcome =
     (case outcome of
        Inr result \<Rightarrow>
          (let weight = lookup_weight normalized_weights fid in
           \<lparr>fs_factor_id = fid,
            factor_name = sf_factor_name factor,
            category = category_value (sf_category factor),
            raw_score = score result,
            weight = weight,
            weighted_score = score result * weight,
            fs_explanation = explanation result,
            fs_confidence = confidence result\<rparr>)
      | Inl e \<Rightarrow>
          \<lparr>fs_factor_id = fid,
           factor_name = sf_factor_name factor,
           category = category_value (sf_category factor),
           raw_score = 0.5,
           weight = lookup_weight normalized_weights fid,
           weighted_score = 0.05,
           fs_explanation = Text (''Error during evaluation: '' @ str_of_error e),
           fs_confidence = VERY_LOW\<rparr>)"

text \<open>The local variables that the loop of \<open>evaluate\<close> updates.\<close>

record loop_state =
  ls_factor_scores :: "FactorScore list"
  ls_missing_parameters :: "string list"
  ls_applicable_factors :: nat
  ls_total_applicable_factors :: nat

text \<open>
  One pass of the loop of \<open>evaluate\<close>. A disabled factor is skipped. \<open>if result.missing_data\<close>
  holds for a field name that is present and not empty.
\<close>

definition evaluate_step ::
  "ScoringConfig \<Rightarrow> (string \<times> real) list \<Rightarrow> ExoplanetEntity \<Rightarrow> StarEntity \<Rightarrow>
   loop_state \<Rightarrow> string \<times> ScoringFactor \<Rightarrow> loop_state" where
  "evaluate_step cfg normalized_weights exoplanet star st p =
     (case p of (fid, factor) \<Rightarrow>
        if \<not> is_factor_enabled cfg fid then st
        else
          (let outcome = sf_evaluate factor exoplanet star in
           \<lparr>ls_factor_scores =
              ls_factor_scores st @ [factor_score_of normalized_weights fid factor outcome],
            ls_missing_parameters =
              (case outcome of
                 Inr result \<Rightarrow>
                   if is_applicable result then ls_missing_parameters st
                   else (case missing_data result of
                           Some m \<Rightarrow> if m \<noteq> [] then ls_missing_parameters st @ [m]
                                     else ls_missing_parameters st
                         | None \<Rightarrow> ls_missing_parameters st)
               | Inl e \<Rightarrow> ls_missing_parameters st),
            ls_applicable_factors =
              (case outcome of
                 Inr result \<Rightarrow>
                   if is_applicable result then ls_applicable_factors st + 1
                   else ls_applicable_factors st
               | Inl e \<Rightarrow> ls_applicable_factors st),
            ls_total_applicable_factors = ls_total_applicable_factors st + 1\<rparr>))"

text \<open>\<open>min(f.raw_score for f in factor_scores)\<close>; the caller has excluded the empty list.\<close>

fun min_raw_score :: "FactorScore list \<Rightarrow> real" where
  "min_raw_score [] = 0"
| "min_raw_score [f] = raw_score f"
| "min_raw_score (f # g # fs) = min (raw_score f) (min_raw_score (g # fs))"

definition weighted_average :: "FactorScore list \<Rightarrow> real" where
  "weighted_average fss =
     (let total_weight = sum_list (map weight fss) in
      if total_weight = 0 then 0.0
      else sum_list (map weighted_score fss) / total_weight)"

definition calculate_total_score :: "ScoringConfig \<Rightarrow> FactorScore list \<Rightarrow> real" where
  "calculate_total_score cfg fss =
     (if fss = [] then 0.0
      else if normalization_method cfg = ''weighted_average'' then weighted_average fss
      else if normalization_method cfg = ''geometric_mean'' then
        (let product = foldl (\<lambda>product f. product * max (raw_score f) 0.01) 1.0 fss
         in product powr (1.0 / real (length fss)))
      else if normalization_method cfg = ''minimum'' then min_raw_score fss
      else weighted_average fss)"

definition evaluate_loop ::
  "ScoringEngine \<Rightarrow> ExoplanetEntity \<Rightarrow> StarEntity \<Rightarrow> loop_state" where
  "evaluate_loop eng exoplanet star =
     foldl (evaluate_step (config eng) (normalize_weights (config eng)) exoplanet star)
       \<lparr>ls_factor_scores = [], ls_missing_parameters = [],
        ls_applicable_factors = 0, ls_total_applicable_factors = 0\<rparr>
       (factors eng)"

text \<open>
  \<open>ScoringEngine.evaluate\<close>. The only call that can raise, \<open>factor.evaluate\<close>, sits inside
  the \<open>try\<close>, so the function returns an assessment on every input.
\<close>

definition evaluate :: "ScoringEngine \<Rightarrow> ExoplanetEntity \<Rightarrow> StarEntity \<Rightarrow> HabitabilityAssessment" where
  "evaluate eng exoplanet star =
     (let st = evaluate_loop eng exoplanet star;
          total_score = calculate_total_score (config eng) (ls_factor_scores st);
          data_completeness =
            (if ls_total_applicable_factors st > 0
             then real (ls_applicable_factors st) / real (ls_total_applicable_factors st)
             else 0.0)
      in \<lparr>exoplanet_id = (case ex_id exoplanet of Some i \<Rightarrow> i | None \<Rightarrow> 0),
          exoplanet_name = ex_name exoplanet,
          host_star_name = star_name star,
          total_score = total_score,
          factor_scores = ls_factor_scores st,
          data_completeness = data_completeness,
          missing_parameters = ls_missing_parameters st,
          scoring_version = VERSION\<rparr>)"

section \<open>Inputs used below\<close>

text \<open>A planet of one Earth mass whose radius is recorded as 0, with no measured density.\<close>

definition zero_radius_physical :: PhysicalParameters where
  "zero_radius_physical =
     PhysicalParameters_default\<lparr>mass_earth := Some 1.0, radius_earth := Some 0.0\<rparr>"

definition zero_radius_planet :: ExoplanetEntity where
  "zero_radius_planet = ExoplanetEntity_default\<lparr>physical := zero_radius_physical\<rparr>"

text \<open>
  A configuration that gives \<open>planet_density\<close> the weight 0.01 and \<open>planet_radius\<close> the weight
  0.99, and an engine on it that registers the density factor alone.
\<close>

definition skewed_config :: ScoringConfig where
  "skewed_config =
     ScoringConfig_init ''2.0.0''
       [(''planet_density'', \<lparr>wc_factor_id = ''planet_density'', wc_weight = 0.01, enabled = True\<rparr>),
        (''planet_radius'', \<lparr>wc_factor_id = ''planet_radius'', wc_weight = 0.99, enabled = True\<rparr>)]
       ''weighted_average'' 3 []"

definition density_only_engine :: ScoringEngine where
  "density_only_engine = ScoringEngine_init (Some skewed_config) [PlanetDensityFactor]"

text \<open>The Sun, and a star of 10000 K with the Sun's luminosity entered.\<close>

definition sun :: StarEntity where
  "sun = StarEntity_default\<lparr>spectral_type := Some ''G2V'', temperature_k := Some 5778,
           luminosity_solar := Some 1.0, age_gyr := Some 4.6\<rparr>"

definition hot_star :: StarEntity where
  "hot_star = StarEntity_default\<lparr>temperature_k := Some 10000, luminosity_solar := Some 1.0\<rparr>"

text \<open>A planet with a given radius, and one with a given eccentricity, nothing else known.\<close>

definition planet_with_radius :: "real \<Rightarrow> ExoplanetEntity" where
  "planet_with_radius r =
     ExoplanetEntity_default\<lparr>physical := PhysicalParameters_default\<lparr>radius_earth := Some r\<rparr>\<rparr>"

definition planet_with_eccentricity :: "real \<Rightarrow> ExoplanetEntity" where
  "planet_with_eccentricity e =
     ExoplanetEntity_default\<lparr>orbital := OrbitalParameters_default\<lparr>eccentricity := Some e\<rparr>\<rparr>"

text \<open>A planet whose mass is recorded as negative.\<close>

definition negative_mass_physical :: PhysicalParameters where
  "negative_mass_physical =
     PhysicalParameters_default\<lparr>mass_earth := Some (- 1.0), radius_earth := Some 1.0\<rparr>"

text \<open>A star with the Sun's temperature and luminosity 0.\<close>

definition dark_star :: StarEntity where
  "dark_star = StarEntity_default\<lparr>temperature_k := Some 5778, luminosity_solar := Some 0.0\<rparr>"

section \<open>Auxiliary notions for the statements\<close>

text \<open>The outcome of \<open>factor.evaluate\<close> that makes the loop count a factor as applicable.\<close>

definition applicable_outcome :: "error + FactorResult \<Rightarrow> bool" where
  "applicable_outcome outcome = (case outcome of Inr r \<Rightarrow> is_applicable r | Inl e \<Rightarrow> False)"

text \<open>A factor score whose weighted score is its raw score times a non-negative weight.\<close>

definition sound_score :: "FactorScore \<Rightarrow> bool" where
  "sound_score fs = (0 \<le> raw_score fs \<and> raw_score fs \<le> 1 \<and> 0 \<le> weight fs \<and>
                     weighted_score fs = raw_score fs * weight fs)"

section \<open>Weight normalisation\<close>

lemma FactorWeightConfig_init_validated:
  "FactorWeightConfig_init fid w en = Inr c \<Longrightarrow> 0 \<le> wc_weight c \<and> wc_weight c \<le> 1"
  by (auto simp: FactorWeightConfig_init_def split: if_splits)

lemma sum_list_enabled_nonneg:
  "list_all (\<lambda>(fid, c). 0 \<le> wc_weight c \<and> wc_weight c \<le> 1) ws \<Longrightarrow>
   0 \<le> sum_list (map (\<lambda>(fid, c). wc_weight c) (filter (\<lambda>(fid, c). enabled c) ws))"
  by (induction ws) (auto)

lemma sum_list_enabled_pos:
  "list_all (\<lambda>(fid, c). 0 \<le> wc_weight c \<and> wc_weight c \<le> 1) ws \<Longrightarrow>
   \<exists>(fid, c) \<in> set ws. enabled c \<and> 0 < wc_weight c \<Longrightarrow>
   0 < sum_list (map (\<lambda>(fid, c). wc_weight c) (filter (\<lambda>(fid, c). enabled c) ws))"
proof (induction ws)
  case Nil
  then show ?case by simp
next
  case (Cons p ws)
  obtain fid c where p: "p = (fid, c)" by (cases p)
  from Cons.prems(1) have rest: "list_all (\<lambda>(fid, c). 0 \<le> wc_weight c \<and> wc_weight c \<le> 1) ws"
    and here: "0 \<le> wc_weight c" by (auto simp: p)
  have nn: "0 \<le> sum_list (map (\<lambda>(fid, c). wc_weight c) (filter (\<lambda>(fid, c). enabled c) ws))"
    by (rule sum_list_enabled_nonneg [OF rest])
  show ?case
  proof (cases "enabled c \<and> 0 < wc_weight c")
    case True
    with nn show ?thesis by (simp add: p)
  next
    case False
    with Cons.prems(2) have "\<exists>(fid, c) \<in> set ws. enabled c \<and> 0 < wc_weight c"
      by (auto simp: p)
    from Cons.IH [OF rest this] here show ?thesis by (simp add: p)
  qed
qed

lemma sum_list_enabled_zero:
  "list_all (\<lambda>(fid, c). 0 \<le> wc_weight c \<and> wc_weight c \<le> 1) ws \<Longrightarrow>
   \<not> (\<exists>(fid, c) \<in> set ws. enabled c \<and> 0 < wc_weight c) \<Longrightarrow>
   sum_list (map (\<lambda>(fid, c). wc_weight c) (filter (\<lambda>(fid, c). enabled c) ws)) = 0"
  by (induction ws) (auto)

lemma sum_list_scaled:
  "sum_list (map snd (map (\<lambda>(fid, c). (fid, wc_weight c / t)) ws)) =
   sum_list (map (\<lambda>(fid, c). wc_weight c) ws) / (t::real)"
  by (induction ws) (auto simp: add_divide_distrib)

text \<open>
  Claim C8. For a configuration whose weights passed the constructor's range check: if some
  enabled factor has a positive weight, the values of \<open>normalize_weights()\<close> sum to 1
  (exactly, over the reals); otherwise (all factors disabled, or every enabled weight 0)
  the result is the empty mapping, and no division by the zero total takes place.
\<close>

theorem normalize_weights_sum_one:
  assumes "weights_validated cfg"
  shows "if (\<exists>(fid, c) \<in> set (factor_weights cfg). enabled c \<and> 0 < wc_weight c)
         then sum_list (map snd (normalize_weights cfg)) = 1
         else normalize_weights cfg = []"
proof (cases "\<exists>(fid, c) \<in> set (factor_weights cfg). enabled c \<and> 0 < wc_weight c")
  case True
  from assms have v: "list_all (\<lambda>(fid, c). 0 \<le> wc_weight c \<and> wc_weight c \<le> 1) (factor_weights cfg)"
    by (simp add: weights_validated_def)
  have pos: "0 < get_total_weight cfg"
    unfolding get_total_weight_def by (rule sum_list_enabled_pos [OF v True])
  then have nw: "normalize_weights cfg =
      map (\<lambda>(fid, c). (fid, wc_weight c / get_total_weight cfg))
          (filter (\<lambda>(fid, c). enabled c) (factor_weights cfg))"
    by (simp add: normalize_weights_def Let_def)
  have "sum_list (map snd (normalize_weights cfg)) =
        sum_list (map (\<lambda>(fid, c). wc_weight c) (filter (\<lambda>(fid, c). enabled c) (factor_weights cfg)))
          / get_total_weight cfg"
    by (simp only: nw sum_list_scaled)
  also have "\<dots> = get_total_weight cfg / get_total_weight cfg"
    by (simp only: get_total_weight_def)
  finally have "sum_list (map snd (normalize_weights cfg)) = 1"
    using pos by simp
  with True show ?thesis by simp
next
  case False
  from assms have v: "list_all (\<lambda>(fid, c). 0 \<le> wc_weight c \<and> wc_weight c \<le> 1) (factor_weights cfg)"
    by (simp add: weights_validated_def)
  have "get_total_weight cfg = 0"
    unfolding get_total_weight_def by (rule sum_list_enabled_zero [OF v False])
  with False show ?thesis by (simp add: normalize_weights_def)
qed

theorem normalize_weights_sum_one_witness:
  "weights_validated load_default_config \<and>
   sum_list (map snd (normalize_weights load_default_config)) = 1 \<and>
   weights_validated all_disabled_config \<and>
   normalize_weights all_disabled_config = []"
proof -
  have v1: "weights_validated load_default_config"
    by (simp add: weights_validated_def load_default_config_def ScoringConfig_init_def DEFAULT_WEIGHTS_def)
  have v2: "weights_validated all_disabled_config"
    by (simp add: weights_validated_def all_disabled_config_def ScoringConfig_init_def)
  have e1: "\<exists>(fid, c) \<in> set (factor_weights load_default_config). enabled c \<and> 0 < wc_weight c"
    by (simp add: load_default_config_def ScoringConfig_init_def DEFAULT_WEIGHTS_def)
  have e2: "\<not> (\<exists>(fid, c) \<in> set (factor_weights all_disabled_config). enabled c \<and> 0 < wc_weight c)"
    by (simp add: all_disabled_config_def ScoringConfig_init_def)
  from normalize_weights_sum_one [OF v1] e1
  have "sum_list (map snd (normalize_weights load_default_config)) = 1" by simp
  moreover from normalize_weights_sum_one [OF v2] e2
  have "normalize_weights all_disabled_config = []" by simp
  ultimately show ?thesis using v1 v2 by simp
qed

section \<open>The evaluation loop\<close>

lemma evaluate_step_scores:
  "ls_factor_scores (foldl (evaluate_step cfg nw ex st) s xs) =
   ls_factor_scores s @
   map (\<lambda>(fid, f). factor_score_of nw fid f (sf_evaluate f ex st))
       (filter (\<lambda>(fid, f). is_factor_enabled cfg fid) xs)"
  by (induction xs arbitrary: s) (auto simp: evaluate_step_def Let_def)

lemma evaluate_step_total:
  "ls_total_applicable_factors (foldl (evaluate_step cfg nw ex st) s xs) =
   ls_total_applicable_factors s + length (filter (\<lambda>(fid, f). is_factor_enabled cfg fid) xs)"
  by (induction xs arbitrary: s) (auto simp: evaluate_step_def Let_def)

lemma evaluate_step_applicable1:
  "ls_applicable_factors (evaluate_step cfg nw ex st s (fid, f)) =
   ls_applicable_factors s +
   (if is_factor_enabled cfg fid \<and> applicable_outcome (sf_evaluate f ex st) then 1 else 0)"
  by (cases "sf_evaluate f ex st") (simp_all add: evaluate_step_def Let_def applicable_outcome_def)

lemma evaluate_step_applicable:
  "ls_applicable_factors (foldl (evaluate_step cfg nw ex st) s xs) =
   ls_applicable_factors s +
   length (filter (\<lambda>(fid, f). is_factor_enabled cfg fid \<and> applicable_outcome (sf_evaluate f ex st)) xs)"
proof (induction xs arbitrary: s)
  case Nil
  then show ?case by simp
next
  case (Cons p xs)
  obtain fid f where p: "p = (fid, f)" by (cases p)
  show ?case by (simp add: p Cons.IH evaluate_step_applicable1)
qed

lemma factor_scores_evaluate:
  "factor_scores (evaluate eng ex st) =
   map (\<lambda>(fid, f). factor_score_of (normalize_weights (config eng)) fid f (sf_evaluate f ex st))
       (filter (\<lambda>(fid, f). is_factor_enabled (config eng) fid) (factors eng))"
  by (simp add: evaluate_def Let_def evaluate_loop_def evaluate_step_scores)

lemma weight_factor_score_of [simp]:
  "weight (factor_score_of nw fid f outcome) = lookup_weight nw fid"
  by (cases outcome) (simp_all add: factor_score_of_def Let_def)

lemma id_factor_score_of [simp]:
  "fs_factor_id (factor_score_of nw fid f outcome) = fid"
  by (cases outcome) (simp_all add: factor_score_of_def Let_def)

section \<open>The default engine\<close>

lemma default_factors:
  "factors create_default_engine = map (\<lambda>f. (sf_factor_id f, f)) get_all_factors"
  by (simp add: create_default_engine_def ScoringEngine_init_def register_factor_def get_all_factors_def
      StellarTypeFactor_def StellarLuminosityFactor_def StellarAgeFactor_def HabitableZonePositionFactor_def
      PlanetRadiusFactor_def PlanetMassFactor_def PlanetDensityFactor_def EquilibriumTemperatureFactor_def
      SurfaceGravityFactor_def OrbitalEccentricityFactor_def TidalLockingFactor_def
      AtmosphereRetentionFactor_def MagneticFieldPotentialFactor_def)

lemma config_register: "config (foldl register_factor e fs) = config e"
  by (induction fs arbitrary: e) (simp_all add: register_factor_def)

lemma config_default: "config create_default_engine = load_default_config"
  by (simp add: create_default_engine_def ScoringEngine_init_def config_register)

lemma normalize_default: "normalize_weights load_default_config = DEFAULT_WEIGHTS"
  by (simp add: normalize_weights_def get_total_weight_def load_default_config_def
      ScoringConfig_init_def DEFAULT_WEIGHTS_def Let_def)

lemma enabled_default: "is_factor_enabled load_default_config fid"
  by (simp add: is_factor_enabled_def load_default_config_def ScoringConfig_init_def DEFAULT_WEIGHTS_def)

lemma default_scores:
  "factor_scores (evaluate create_default_engine ex st) =
   map (\<lambda>f. factor_score_of DEFAULT_WEIGHTS (sf_factor_id f) f (sf_evaluate f ex st)) get_all_factors"
  by (simp add: factor_scores_evaluate config_default normalize_default default_factors
      enabled_default comp_def)

text \<open>
  Claim C9. The magnetic-field factor registers under the id \<open>magnetic_field\<close>, while the
  default weight table has the key \<open>magnetic_field_potential\<close> (weight 0.07). In the default
  engine the id \<open>magnetic_field\<close> is therefore not configured: it counts as enabled, has no
  normalised weight, and is scored with the fallback weight 0.1. For every exoplanet and
  star the thirteen weights applied are the ones listed, and they sum to 1.03.
\<close>

theorem magnetic_field_fallback_weight:
  "sf_factor_id MagneticFieldPotentialFactor = ''magnetic_field'' \<and>
   map_of DEFAULT_WEIGHTS ''magnetic_field_potential'' = Some 0.07 \<and>
   map_of (factor_weights (config create_default_engine)) ''magnetic_field'' = None \<and>
   is_factor_enabled (config create_default_engine) ''magnetic_field'' \<and>
   map_of (normalize_weights (config create_default_engine)) ''magnetic_field'' = None \<and>
   map (\<lambda>fs. (fs_factor_id fs, weight fs)) (factor_scores (evaluate create_default_engine exoplanet star)) =
     [(''stellar_type'', 0.12), (''stellar_luminosity'', 0.08), (''stellar_age'', 0.05),
      (''habitable_zone_position'', 0.05), (''planet_radius'', 0.12), (''planet_mass'', 0.08),
      (''planet_density'', 0.05), (''equilibrium_temperature'', 0.10), (''surface_gravity'', 0.05),
      (''orbital_eccentricity'', 0.08), (''tidal_locking'', 0.07), (''atmosphere_retention'', 0.08),
      (''magnetic_field'', 0.1)] \<and>
   sum_list (map weight (factor_scores (evaluate create_default_engine exoplanet star))) = 1.03 \<and>
   1 < sum_list (map weight (factor_scores (evaluate create_default_engine exoplanet star)))"
  apply (simp only: config_default normalize_default default_scores)
  apply (simp add: enabled_default)
  apply (simp add: get_all_factors_def lookup_weight_def DEFAULT_WEIGHTS_def
      load_default_config_def ScoringConfig_init_def
      StellarTypeFactor_def StellarLuminosityFactor_def StellarAgeFactor_def HabitableZonePositionFactor_def
      PlanetRadiusFactor_def PlanetMassFactor_def PlanetDensityFactor_def EquilibriumTemperatureFactor_def
      SurfaceGravityFactor_def OrbitalEccentricityFactor_def TidalLockingFactor_def
      AtmosphereRetentionFactor_def MagneticFieldPotentialFactor_def)
  done

section \<open>Scores of factors that return a result\<close>

text \<open>
  When no enabled factor raises, every factor score is built by the \<open>try\<close> body: its
  weighted score is its raw score times its weight, and the total score lies in \<open>[0, 1]\<close>
  under each aggregation method.
\<close>

lemma weighted_score_of_result:
  "weighted_score (factor_score_of nw fid f (Inr r)) =
   raw_score (factor_score_of nw fid f (Inr r)) * weight (factor_score_of nw fid f (Inr r))"
  by (simp add: factor_score_of_def Let_def)

lemma normalize_weights_nonneg:
  assumes "weights_validated cfg" "(fid, w) \<in> set (normalize_weights cfg)"
  shows "0 \<le> w"
proof -
  from assms(1) have v: "list_all (\<lambda>(fid, c). 0 \<le> wc_weight c \<and> wc_weight c \<le> 1) (factor_weights cfg)"
    by (simp add: weights_validated_def)
  have t: "0 \<le> get_total_weight cfg"
    unfolding get_total_weight_def by (rule sum_list_enabled_nonneg [OF v])
  from assms(2) obtain c where "(fid, c) \<in> set (factor_weights cfg)" "w = wc_weight c / get_total_weight cfg"
    by (auto simp: normalize_weights_def Let_def split: if_splits)
  moreover from this(1) v have "0 \<le> wc_weight c" by (auto simp: list_all_iff)
  ultimately show ?thesis using t by simp
qed

lemma lookup_weight_nonneg:
  assumes "weights_validated cfg"
  shows "0 \<le> lookup_weight (normalize_weights cfg) fid"
proof (cases "map_of (normalize_weights cfg) fid")
  case None
  then show ?thesis by (simp add: lookup_weight_def)
next
  case (Some w)
  then have "(fid, w) \<in> set (normalize_weights cfg)" by (rule map_of_SomeD)
  from normalize_weights_nonneg [OF assms this] Some show ?thesis by (simp add: lookup_weight_def)
qed

lemma weighted_average_bounds:
  assumes "list_all sound_score fss"
  shows "0 \<le> weighted_average fss \<and> weighted_average fss \<le> 1"
proof -
  have b: "0 \<le> sum_list (map weighted_score fss) \<and>
           sum_list (map weighted_score fss) \<le> sum_list (map weight fss) \<and>
           0 \<le> sum_list (map weight fss)"
    using assms
  proof (induction fss)
    case Nil
    then show ?case by simp
  next
    case (Cons f fss)
    then have f: "sound_score f" and r: "list_all sound_score fss" by simp_all
    from f have "0 \<le> weighted_score f" "weighted_score f \<le> weight f" "0 \<le> weight f"
      by (simp_all add: sound_score_def mult_left_le_one_le)
    with Cons.IH [OF r] show ?case by simp
  qed
  show ?thesis
  proof (cases "sum_list (map weight fss) = 0")
    case True
    then show ?thesis by (simp add: weighted_average_def)
  next
    case False
    with b have "0 < sum_list (map weight fss)" by simp
    with b show ?thesis by (simp add: weighted_average_def Let_def)
  qed
qed

lemma min_raw_score_bounds:
  assumes "list_all sound_score fss" "fss \<noteq> []"
  shows "0 \<le> min_raw_score fss \<and> min_raw_score fss \<le> 1"
  using assms
  by (induction fss rule: min_raw_score.induct) (auto simp: sound_score_def min_def)

lemma product_bounds:
  assumes "list_all sound_score fss" "0 < p" "p \<le> 1"
  shows "0 < foldl (\<lambda>product f. product * max (raw_score f) 0.01) p fss \<and>
         foldl (\<lambda>product f. product * max (raw_score f) 0.01) p fss \<le> 1"
  using assms
proof (induction fss arbitrary: p)
  case Nil
  then show ?case by simp
next
  case (Cons f fss)
  then have f: "sound_score f" and r: "list_all sound_score fss" by simp_all
  from f have m: "0 < max (raw_score f) 0.01" "max (raw_score f) 0.01 \<le> 1"
    by (simp_all add: sound_score_def max_def)
  have "0 < p * max (raw_score f) 0.01" using Cons.prems(2) m(1) by simp
  moreover have "p * max (raw_score f) 0.01 \<le> 1"
    using Cons.prems(2,3) m by (simp add: mult_le_one)
  ultimately show ?case using Cons.IH [OF r] by simp
qed

lemma calculate_total_score_bounds:
  assumes "list_all sound_score fss"
  shows "0 \<le> calculate_total_score cfg fss \<and> calculate_total_score cfg fss \<le> 1"
proof (cases "fss = []")
  case True
  then show ?thesis by (simp add: calculate_total_score_def)
next
  case False
  have g: "0 \<le> foldl (\<lambda>product f. product * max (raw_score f) 0.01) 1.0 fss powr (1.0 / real (length fss)) \<and>
           foldl (\<lambda>product f. product * max (raw_score f) 0.01) 1.0 fss powr (1.0 / real (length fss)) \<le> 1"
  proof -
    from product_bounds [OF assms, of 1]
    have p: "0 < foldl (\<lambda>product f. product * max (raw_score f) 0.01) 1 fss"
            "foldl (\<lambda>product f. product * max (raw_score f) 0.01) 1 fss \<le> 1" by simp_all
    have e: "0 \<le> 1 / real (length fss)" by simp
    from p e show ?thesis by (simp add: powr_le1)
  qed
  from False weighted_average_bounds [OF assms] min_raw_score_bounds [OF assms False] g
  show ?thesis by (simp add: calculate_total_score_def Let_def)
qed

lemma FactorResult_init_score_bounds:
  "0 \<le> score (FactorResult_init fid s ex c a m) \<and> score (FactorResult_init fid s ex c a m) \<le> 1"
  by (simp add: FactorResult_init_def)

lemma total_score_bounds_without_faults:
  assumes v: "weights_validated (config eng)"
      and ok: "\<forall>(fid, f) \<in> set (factors eng). is_factor_enabled (config eng) fid \<longrightarrow>
                 (\<exists>r. sf_evaluate f ex st = Inr r \<and> 0 \<le> score r \<and> score r \<le> 1)"
  shows "0 \<le> total_score (evaluate eng ex st) \<and> total_score (evaluate eng ex st) \<le> 1"
proof -
  have "list_all sound_score (factor_scores (evaluate eng ex st))"
    unfolding factor_scores_evaluate list_all_iff
  proof
    fix fs
    assume "fs \<in> set (map (\<lambda>(fid, f). factor_score_of (normalize_weights (config eng)) fid f (sf_evaluate f ex st))
                         (filter (\<lambda>(fid, f). is_factor_enabled (config eng) fid) (factors eng)))"
    then obtain fid f where m: "(fid, f) \<in> set (factors eng)" "is_factor_enabled (config eng) fid"
      and fs: "fs = factor_score_of (normalize_weights (config eng)) fid f (sf_evaluate f ex st)"
      by auto
    from ok m obtain r where r: "sf_evaluate f ex st = Inr r" "0 \<le> score r" "score r \<le> 1" by blast
    show "sound_score fs"
      using r lookup_weight_nonneg [OF v, of fid]
      by (simp add: fs sound_score_def factor_score_of_def Let_def)
  qed
  moreover have "total_score (evaluate eng ex st) =
      calculate_total_score (config eng) (factor_scores (evaluate eng ex st))"
    by (simp add: evaluate_def Let_def)
  ultimately show ?thesis by (simp only: calculate_total_score_bounds)
qed

section \<open>Failure isolation and the degraded score\<close>

lemma factor_score_member:
  "(fid, f) \<in> set (factors eng) \<Longrightarrow> is_factor_enabled (config eng) fid \<Longrightarrow>
   factor_score_of (normalize_weights (config eng)) fid f (sf_evaluate f ex st)
     \<in> set (factor_scores (evaluate eng ex st))"
  by (force simp: factor_scores_evaluate)

lemma factor_score_ids:
  "map fs_factor_id (factor_scores (evaluate eng ex st)) =
   filter (is_factor_enabled (config eng)) (map fst (factors eng))"
  unfolding factor_scores_evaluate
  by (induction "factors eng") (auto simp: filter_map comp_def split_def)

lemma density_raises:
  "sf_evaluate PlanetDensityFactor zero_radius_planet st = Inl (ZeroDivisionError ''float division by zero'')"
  by (simp add: PlanetDensityFactor_def PlanetDensityFactor_evaluate_def estimate_density_def
      zero_radius_planet_def zero_radius_physical_def ExoplanetEntity_default_def PhysicalParameters_default_def)

text \<open>
  Claim C1. When \<open>evaluate\<close> of a registered, enabled factor raises, \<open>ScoringEngine.evaluate\<close>
  still returns an assessment: its factor scores cover exactly the enabled registered factors,
  in registry order; the faulty factor appears with \<open>raw_score\<close> 0.5, confidence \<open>very_low\<close>
  and the explanation \<open>Error during evaluation:\<close> followed by the exception's text; and every
  enabled factor that returned a result appears with that result's score, explanation and
  confidence.
\<close>

theorem partial_failure_isolation:
  assumes reg: "(fid, f) \<in> set (factors eng)"
      and en: "is_factor_enabled (config eng) fid"
      and raises: "sf_evaluate f exoplanet star = Inl e"
  shows "map fs_factor_id (factor_scores (evaluate eng exoplanet star)) =
           filter (is_factor_enabled (config eng)) (map fst (factors eng))
       \<and> (\<exists>fs \<in> set (factor_scores (evaluate eng exoplanet star)).
             fs_factor_id fs = fid \<and> raw_score fs = 0.5 \<and> fs_confidence fs = VERY_LOW \<and>
             fs_explanation fs = Text (''Error during evaluation: '' @ str_of_error e))
       \<and> (\<forall>(gid, g) \<in> set (factors eng). \<forall>r.
             is_factor_enabled (config eng) gid \<longrightarrow> sf_evaluate g exoplanet star = Inr r \<longrightarrow>
             (\<exists>fs \<in> set (factor_scores (evaluate eng exoplanet star)).
                fs_factor_id fs = gid \<and> raw_score fs = score r \<and>
                fs_explanation fs = explanation r \<and> fs_confidence fs = confidence r))"
proof (intro conjI)
  let ?nw = "normalize_weights (config eng)"
  let ?mk = "\<lambda>(fid, f). factor_score_of ?nw fid f (sf_evaluate f exoplanet star)"
  let ?en = "\<lambda>(fid, f). is_factor_enabled (config eng) fid"
  have fs: "factor_scores (evaluate eng exoplanet star) = map ?mk (filter ?en (factors eng))"
    by (rule factor_scores_evaluate)
  show "map fs_factor_id (factor_scores (evaluate eng exoplanet star)) =
          filter (is_factor_enabled (config eng)) (map fst (factors eng))"
    by (rule factor_score_ids)
  have "?mk (fid, f) \<in> set (factor_scores (evaluate eng exoplanet star))"
    using factor_score_member [OF reg en] by simp
  then show "\<exists>fs \<in> set (factor_scores (evaluate eng exoplanet star)).
             fs_factor_id fs = fid \<and> raw_score fs = 0.5 \<and> fs_confidence fs = VERY_LOW \<and>
             fs_explanation fs = Text (''Error during evaluation: '' @ str_of_error e)"
    by (rule rev_bexI) (simp add: raises factor_score_of_def)
  show "\<forall>(gid, g) \<in> set (factors eng). \<forall>r.
             is_factor_enabled (config eng) gid \<longrightarrow> sf_evaluate g exoplanet star = Inr r \<longrightarrow>
             (\<exists>fs \<in> set (factor_scores (evaluate eng exoplanet star)).
                fs_factor_id fs = gid \<and> raw_score fs = score r \<and>
                fs_explanation fs = explanation r \<and> fs_confidence fs = confidence r)"
  proof (clarify)
    fix gid g r
    assume g: "(gid, g) \<in> set (factors eng)" "is_factor_enabled (config eng) gid"
       and r: "sf_evaluate g exoplanet star = Inr r"
    have "?mk (gid, g) \<in> set (factor_scores (evaluate eng exoplanet star))"
      using factor_score_member [OF g] by simp
    then show "\<exists>fs \<in> set (factor_scores (evaluate eng exoplanet star)).
                fs_factor_id fs = gid \<and> raw_score fs = score r \<and>
                fs_explanation fs = explanation r \<and> fs_confidence fs = confidence r"
      by (rule rev_bexI) (simp add: r factor_score_of_def Let_def)
  qed
qed

theorem partial_failure_isolation_witness:
  "(''planet_density'', PlanetDensityFactor) \<in> set (factors create_default_engine) \<and>
   is_factor_enabled (config create_default_engine) ''planet_density'' \<and>
   sf_evaluate PlanetDensityFactor zero_radius_planet StarEntity_default =
     Inl (ZeroDivisionError ''float division by zero'') \<and>
   map fs_factor_id (factor_scores (evaluate create_default_engine zero_radius_planet StarEntity_default)) =
     [''stellar_type'', ''stellar_luminosity'', ''stellar_age'', ''habitable_zone_position'',
      ''planet_radius'', ''planet_mass'', ''planet_density'', ''equilibrium_temperature'',
      ''surface_gravity'', ''orbital_eccentricity'', ''tidal_locking'', ''atmosphere_retention'',
      ''magnetic_field''] \<and>
   (\<exists>fs. fs \<in> set (factor_scores (evaluate create_default_engine zero_radius_planet StarEntity_default)) \<and>
         fs_factor_id fs = ''planet_density'' \<and> raw_score fs = 0.5 \<and> fs_confidence fs = VERY_LOW \<and>
         fs_explanation fs = Text ''Error during evaluation: float division by zero'')"
proof -
  have h1: "(''planet_density'', PlanetDensityFactor) \<in> set (factors create_default_engine)"
    by (simp add: default_factors get_all_factors_def PlanetDensityFactor_def)
  have h2: "is_factor_enabled (config create_default_engine) ''planet_density''"
    by (simp add: config_default enabled_default)
  have h3: "sf_evaluate PlanetDensityFactor zero_radius_planet StarEntity_default =
     Inl (ZeroDivisionError ''float division by zero'')"
    by (rule density_raises)
  have ids: "filter (is_factor_enabled (config create_default_engine)) (map fst (factors create_default_engine)) =
     [''stellar_type'', ''stellar_luminosity'', ''stellar_age'', ''habitable_zone_position'',
      ''planet_radius'', ''planet_mass'', ''planet_density'', ''equilibrium_temperature'',
      ''surface_gravity'', ''orbital_eccentricity'', ''tidal_locking'', ''atmosphere_retention'',
      ''magnetic_field'']"
    by (simp add: config_default enabled_default default_factors get_all_factors_def
      StellarTypeFactor_def StellarLuminosityFactor_def StellarAgeFactor_def HabitableZonePositionFactor_def
      PlanetRadiusFactor_def PlanetMassFactor_def PlanetDensityFactor_def EquilibriumTemperatureFactor_def
      SurfaceGravityFactor_def OrbitalEccentricityFactor_def TidalLockingFactor_def
      AtmosphereRetentionFactor_def MagneticFieldPotentialFactor_def)
  from partial_failure_isolation [OF h1 h2 h3] ids h1 h2 h3
  show ?thesis by (auto simp: Bex_def)
qed

text \<open>
  Claim C3 fails on the code. In the default engine, for a planet of one Earth mass and
  radius 0, \<open>PlanetDensityFactor.evaluate\<close> raises \<open>ZeroDivisionError\<close>; the degraded
  \<open>FactorScore\<close> (the seventh of the assessment) has \<open>raw_score\<close> 0.5 and \<open>weight\<close> 0.05 but the
  hard-coded \<open>weighted_score\<close> 0.05, which is not \<open>raw_score * weight = 0.025\<close>. (A
  factor that returns a result gets \<open>raw_score * weight\<close>: \<open>weighted_score_of_result\<close>.)
\<close>

theorem degraded_weighted_score:
  "factor_scores (evaluate create_default_engine zero_radius_planet StarEntity_default) ! 6 =
     \<lparr>fs_factor_id = ''planet_density'', factor_name = ''Planet Bulk Density'',
      category = ''planetary'', raw_score = 0.5, weight = 0.05, weighted_score = 0.05,
      fs_explanation = Text ''Error during evaluation: float division by zero'',
      fs_confidence = VERY_LOW\<rparr> \<and>
   weighted_score (factor_scores (evaluate create_default_engine zero_radius_planet StarEntity_default) ! 6)
     \<noteq> raw_score (factor_scores (evaluate create_default_engine zero_radius_planet StarEntity_default) ! 6)
       * weight (factor_scores (evaluate create_default_engine zero_radius_planet StarEntity_default) ! 6)"
proof -
  have "factor_scores (evaluate create_default_engine zero_radius_planet StarEntity_default) ! 6 =
        factor_score_of DEFAULT_WEIGHTS ''planet_density'' PlanetDensityFactor
          (sf_evaluate PlanetDensityFactor zero_radius_planet StarEntity_default)"
    by (simp add: default_scores get_all_factors_def PlanetDensityFactor_def)
  also have "\<dots> = \<lparr>fs_factor_id = ''planet_density'', factor_name = ''Planet Bulk Density'',
      category = ''planetary'', raw_score = 0.5, weight = 0.05, weighted_score = 0.05,
      fs_explanation = Text ''Error during evaluation: float division by zero'',
      fs_confidence = VERY_LOW\<rparr>"
    by (simp add: density_raises factor_score_of_def lookup_weight_def DEFAULT_WEIGHTS_def)
       (simp add: PlanetDensityFactor_def)
  finally show ?thesis by simp
qed

text \<open>
  Claim C10 fails on the code. With the weights 0.01 for \<open>planet_density\<close> and 0.99 for
  \<open>planet_radius\<close> (both valid), an engine that registers the density factor alone, and
  the planet of radius 0, the one factor score is the degraded one: weight 0.01,
  \<open>weighted_score\<close> 0.05. The weighted average is \<open>0.05 / 0.01 = 5\<close>. (When no enabled
  factor raises the total score is in \<open>[0, 1]\<close>: \<open>total_score_bounds_without_faults\<close>.)
\<close>

theorem total_score_above_one:
  "weights_validated (config density_only_engine) \<and>
   factors density_only_engine = [(''planet_density'', PlanetDensityFactor)] \<and>
   total_score (evaluate density_only_engine zero_radius_planet StarEntity_default) = 5"
proof -
  have c: "config density_only_engine = skewed_config"
    by (simp add: density_only_engine_def ScoringEngine_init_def register_factor_def)
  have f: "factors density_only_engine = [(''planet_density'', PlanetDensityFactor)]"
    by (simp add: density_only_engine_def ScoringEngine_init_def register_factor_def PlanetDensityFactor_def)
  have v: "weights_validated skewed_config"
    by (simp add: weights_validated_def skewed_config_def ScoringConfig_init_def)
  have nw: "normalize_weights skewed_config = [(''planet_density'', 0.01), (''planet_radius'', 0.99)]"
    by (simp add: normalize_weights_def get_total_weight_def skewed_config_def ScoringConfig_init_def Let_def)
  have en: "is_factor_enabled skewed_config ''planet_density''"
    by (simp add: is_factor_enabled_def skewed_config_def ScoringConfig_init_def)
  have m: "normalization_method skewed_config = ''weighted_average''"
    by (simp add: skewed_config_def ScoringConfig_init_def)
  have fs: "factor_scores (evaluate density_only_engine zero_radius_planet StarEntity_default) =
     [factor_score_of [(''planet_density'', 0.01), (''planet_radius'', 0.99)] ''planet_density''
        PlanetDensityFactor (Inl (ZeroDivisionError ''float division by zero''))]"
    by (simp add: factor_scores_evaluate c f nw en density_raises)
  have "total_score (evaluate density_only_engine zero_radius_planet StarEntity_default) =
        calculate_total_score skewed_config
          (factor_scores (evaluate density_only_engine zero_radius_planet StarEntity_default))"
    by (simp add: evaluate_def Let_def c)
  also have "\<dots> = 5"
    unfolding fs
    by (simp add: calculate_total_score_def m weighted_average_def factor_score_of_def lookup_weight_def)
  finally show ?thesis using c f v by simp
qed

section \<open>The default engine on entities without data\<close>

lemmas factor_defs =
  StellarTypeFactor_def StellarLuminosityFactor_def StellarAgeFactor_def HabitableZonePositionFactor_def
  PlanetRadiusFactor_def PlanetMassFactor_def PlanetDensityFactor_def EquilibriumTemperatureFactor_def
  SurfaceGravityFactor_def OrbitalEccentricityFactor_def TidalLockingFactor_def
  AtmosphereRetentionFactor_def MagneticFieldPotentialFactor_def

lemmas evaluate_defs =
  StellarTypeFactor_evaluate_def StellarLuminosityFactor_evaluate_def StellarAgeFactor_evaluate_def
  HabitableZonePositionFactor_evaluate_def PlanetRadiusFactor_evaluate_def PlanetMassFactor_evaluate_def
  PlanetDensityFactor_evaluate_def EquilibriumTemperatureFactor_evaluate_def
  SurfaceGravityFactor_evaluate_def OrbitalEccentricityFactor_evaluate_def TidalLockingFactor_evaluate_def
  AtmosphereRetentionFactor_evaluate_def MagneticFieldPotentialFactor_evaluate_def

lemmas default_entity_defs =
  ExoplanetEntity_default_def StarEntity_default_def OrbitalParameters_default_def
  PhysicalParameters_default_def

lemma empty_results:
  "map (\<lambda>f. (sf_factor_id f,
              map_sum id (\<lambda>r. (score r, is_applicable r))
                (sf_evaluate f ExoplanetEntity_default StarEntity_default)))
       get_all_factors =
     [(''stellar_type'', Inr (0.5, False)),
      (''stellar_luminosity'', Inr (0.5, True)),
      (''stellar_age'', Inr (0.5, False)),
      (''habitable_zone_position'', Inr (0.5, False)),
      (''planet_radius'', Inr (0.5, False)),
      (''planet_mass'', Inr (0.5, False)),
      (''planet_density'', Inr (0.5, False)),
      (''equilibrium_temperature'', Inr (0.5, False)),
      (''surface_gravity'', Inr (0.5, False)),
      (''orbital_eccentricity'', Inr (0.5, False)),
      (''tidal_locking'', Inr (0.5, False)),
      (''atmosphere_retention'', Inr (0.5, False)),
      (''magnetic_field'', Inr (0.5, False))]"
  by (simp add: get_all_factors_def factor_defs evaluate_defs default_entity_defs
      create_missing_data_result_def FactorResult_init_def luminosity_class_def
      estimate_density_def surface_gravity_earth_def Let_def)

lemma data_completeness_evaluate:
  "data_completeness (evaluate eng ex st) =
   (let n = length (filter (\<lambda>(fid, f). is_factor_enabled (config eng) fid) (factors eng));
        a = length (filter (\<lambda>(fid, f). is_factor_enabled (config eng) fid \<and>
                                applicable_outcome (sf_evaluate f ex st)) (factors eng))
    in if n > 0 then real a / real n else 0)"
  by (simp add: evaluate_def evaluate_loop_def Let_def evaluate_step_total evaluate_step_applicable)

lemma total_score_evaluate:
  "total_score (evaluate eng ex st) =
   calculate_total_score (config eng) (factor_scores (evaluate eng ex st))"
  by (simp add: evaluate_def Let_def)

lemma raw_score_factor_score_of:
  "raw_score (factor_score_of nw fid f outcome) = (case outcome of Inr r \<Rightarrow> score r | Inl e \<Rightarrow> 0.5)"
  by (cases outcome) (simp_all add: factor_score_of_def Let_def)

lemma weighted_score_factor_score_of:
  "weighted_score (factor_score_of nw fid f outcome) =
     (case outcome of Inr r \<Rightarrow> score r * lookup_weight nw fid | Inl e \<Rightarrow> 0.05)"
  by (cases outcome) (simp_all add: factor_score_of_def Let_def)

lemma empty_outcomes:
  "map (\<lambda>f. applicable_outcome (sf_evaluate f ExoplanetEntity_default StarEntity_default)) get_all_factors =
     [False, True, False, False, False, False, False, False, False, False, False, False, False]"
  by (simp add: get_all_factors_def factor_defs evaluate_defs default_entity_defs applicable_outcome_def
      create_missing_data_result_def FactorResult_init_def luminosity_class_def
      estimate_density_def surface_gravity_earth_def Let_def)

lemma empty_raw_scores:
  "map raw_score (factor_scores (evaluate create_default_engine ExoplanetEntity_default StarEntity_default))
   = [0.5, 0.5, 0.5, 0.5, 0.5, 0.5, 0.5, 0.5, 0.5, 0.5, 0.5, 0.5, 0.5]"
  by (simp add: default_scores raw_score_factor_score_of comp_def)
     (simp add: get_all_factors_def factor_defs evaluate_defs default_entity_defs
      create_missing_data_result_def FactorResult_init_def luminosity_class_def
      estimate_density_def surface_gravity_earth_def Let_def)

lemma default_enabled_filter:
  "filter (\<lambda>(fid, f). is_factor_enabled (config create_default_engine) fid) (factors create_default_engine)
   = factors create_default_engine"
  by (simp add: config_default enabled_default)

lemma default_applicable_filter:
  "length (filter (\<lambda>(fid, f). is_factor_enabled (config create_default_engine) fid \<and>
                  applicable_outcome (sf_evaluate f ex st)) (factors create_default_engine))
   = length (filter id (map (\<lambda>f. applicable_outcome (sf_evaluate f ex st)) get_all_factors))"
  by (simp add: config_default enabled_default default_factors filter_map comp_def)

lemma default_completeness:
  "data_completeness (evaluate create_default_engine ex st) =
   real (length (filter id (map (\<lambda>f. applicable_outcome (sf_evaluate f ex st)) get_all_factors))) / 13"
proof -
  have l: "length (factors create_default_engine) = 13"
    by (simp add: default_factors get_all_factors_def)
  show ?thesis
    by (simp only: data_completeness_evaluate Let_def default_enabled_filter default_applicable_filter l)
       simp
qed

lemma empty_completeness:
  "data_completeness (evaluate create_default_engine ExoplanetEntity_default StarEntity_default) = 1 / 13"
  by (simp only: default_completeness empty_outcomes) simp

lemma default_total_score:
  "total_score (evaluate create_default_engine ex st) =
   weighted_average (factor_scores (evaluate create_default_engine ex st))"
proof -
  have "factor_scores (evaluate create_default_engine ex st) \<noteq> []"
    by (simp add: default_scores get_all_factors_def)
  moreover have "normalization_method load_default_config = ''weighted_average''"
    by (simp add: load_default_config_def ScoringConfig_init_def)
  ultimately show ?thesis
    by (simp add: total_score_evaluate config_default calculate_total_score_def)
qed

lemma default_weights:
  "map weight (factor_scores (evaluate create_default_engine ex st)) =
     [0.12, 0.08, 0.05, 0.05, 0.12, 0.08, 0.05, 0.10, 0.05, 0.08, 0.07, 0.08, 0.1]"
  by (simp add: default_scores comp_def)
     (simp add: get_all_factors_def factor_defs lookup_weight_def DEFAULT_WEIGHTS_def)

lemma empty_weighted_scores:
  "map weighted_score (factor_scores (evaluate create_default_engine ExoplanetEntity_default StarEntity_default))
   = [0.06, 0.04, 0.025, 0.025, 0.06, 0.04, 0.025, 0.05, 0.025, 0.04, 0.035, 0.04, 0.05]"
  by (simp add: default_scores weighted_score_factor_score_of comp_def)
     (simp add: get_all_factors_def factor_defs evaluate_defs default_entity_defs
      create_missing_data_result_def FactorResult_init_def luminosity_class_def
      estimate_density_def surface_gravity_earth_def Let_def lookup_weight_def DEFAULT_WEIGHTS_def)

lemma empty_total_score:
  "total_score (evaluate create_default_engine ExoplanetEntity_default StarEntity_default) = 0.5"
  by (simp only: default_total_score weighted_average_def Let_def default_weights empty_weighted_scores)
     simp

text \<open>
  The two factors that read \<open>spectral_type\<close>, on the star without data.
  \<open>StellarTypeFactor.evaluate\<close> leaves through \<open>_create_missing_data_result\<close>;
  \<open>StellarLuminosityFactor.evaluate\<close> scores the luminosity class \<open>UNKNOWN\<close> and returns a
  result that keeps the default \<open>is_applicable = True\<close>.
\<close>

lemma stellar_type_on_empty_star:
  "sf_evaluate StellarTypeFactor ExoplanetEntity_default StarEntity_default =
     Inr \<lparr>factor_id = ''stellar_type'', score = 0.5,
          explanation = Text ''Required data 'stellar_type' is not available. Assigned neutral score.'',
          confidence = VERY_LOW, is_applicable = False, missing_data = Some ''stellar_type''\<rparr>"
  by (simp add: StellarTypeFactor_def StellarTypeFactor_evaluate_def StarEntity_default_def
      create_missing_data_result_def FactorResult_init_def)

lemma stellar_luminosity_on_empty_star:
  "sf_evaluate StellarLuminosityFactor ExoplanetEntity_default StarEntity_default =
     Inr \<lparr>factor_id = ''stellar_luminosity'', score = 0.5,
          explanation = Prose ''Luminosity class unknown'' [], confidence = LOW,
          is_applicable = True, missing_data = None\<rparr>"
  by (simp add: StellarLuminosityFactor_def StellarLuminosityFactor_evaluate_def luminosity_class_def
      StarEntity_default_def FactorResult_init_def Let_def)

text \<open>
  Claim C2 fails on the code. For \<open>ExoplanetEntity()\<close> and \<open>StarEntity()\<close> in the default
  engine every one of the 13 factors returns a result with score 0.5, every \<open>raw_score\<close> of
  the assessment is 0.5 and \<open>total_score\<close> is 0.5, as claimed. But \<open>is_applicable\<close> is false
  for twelve factors only: \<open>StellarLuminosityFactor.evaluate\<close> lacks the missing-data exit
  that its sibling \<open>StellarTypeFactor.evaluate\<close> takes on the same absent \<open>spectral_type\<close>, so
  its result is applicable and \<open>data_completeness\<close> is \<open>1/13\<close>, not 0.
\<close>

theorem empty_entities_assessment:
  "map (\<lambda>f. (sf_factor_id f,
              map_sum id (\<lambda>r. (score r, is_applicable r))
                (sf_evaluate f ExoplanetEntity_default StarEntity_default)))
       get_all_factors =
     [(''stellar_type'', Inr (0.5, False)),
      (''stellar_luminosity'', Inr (0.5, True)),
      (''stellar_age'', Inr (0.5, False)),
      (''habitable_zone_position'', Inr (0.5, False)),
      (''planet_radius'', Inr (0.5, False)),
      (''planet_mass'', Inr (0.5, False)),
      (''planet_density'', Inr (0.5, False)),
      (''equilibrium_temperature'', Inr (0.5, False)),
      (''surface_gravity'', Inr (0.5, False)),
      (''orbital_eccentricity'', Inr (0.5, False)),
      (''tidal_locking'', Inr (0.5, False)),
      (''atmosphere_retention'', Inr (0.5, False)),
      (''magnetic_field'', Inr (0.5, False))] \<and>
   map raw_score (factor_scores (evaluate create_default_engine ExoplanetEntity_default StarEntity_default))
     = [0.5, 0.5, 0.5, 0.5, 0.5, 0.5, 0.5, 0.5, 0.5, 0.5, 0.5, 0.5, 0.5] \<and>
   data_completeness (evaluate create_default_engine ExoplanetEntity_default StarEntity_default) = 1 / 13 \<and>
   total_score (evaluate create_default_engine ExoplanetEntity_default StarEntity_default) = 0.5"
  using empty_results empty_raw_scores empty_completeness empty_total_score by simp

section \<open>Single factors and derived properties\<close>

text \<open>
  Claim C4 fails on the code at its middle value. \<open>OrbitalEccentricityFactor.evaluate\<close>
  returns score 1.0 for eccentricity 0.0 and score 0.02 for eccentricity 0.99, as claimed; for
  eccentricity 0.206 it returns 0.5, the score of the band \<open>0.2 \<le> ecc < 0.3\<close>, not the 0.7 of
  the band \<open>0.1 \<le> ecc < 0.2\<close> whose prose names Mercury's 0.206.
\<close>

theorem eccentricity_round_numbers:
  "map (\<lambda>e. map_sum id score (OrbitalEccentricityFactor_evaluate (planet_with_eccentricity e) sun))
       [0.0, 0.206, 0.99] = [Inr 1.0, Inr 0.5, Inr 0.02]"
  by (simp add: OrbitalEccentricityFactor_evaluate_def planet_with_eccentricity_def
      ExoplanetEntity_default_def OrbitalParameters_default_def FactorResult_init_def Let_def)

text \<open>
  Claim C6 fails on the code. For mass 1 and radius 0 with no measured density,
  \<open>estimate_density\<close> divides by \<open>radius ** 3 = 0\<close> and raises, where \<open>surface_gravity_earth\<close>
  and \<open>escape_velocity_km_s\<close> test \<open>radius <= 0\<close> first and return \<open>None\<close>. (For a negative mass
  and a positive radius \<open>escape_velocity_km_s\<close> raises as well, from \<open>math.sqrt\<close>.)
\<close>

theorem estimate_density_raises:
  "estimate_density zero_radius_physical = Inl (ZeroDivisionError ''float division by zero'') \<and>
   surface_gravity_earth zero_radius_physical = Inr None \<and>
   escape_velocity_km_s zero_radius_physical = Inr None \<and>
   classify_planet_type zero_radius_physical = TERRESTRIAL \<and>
   escape_velocity_km_s negative_mass_physical = Inl (ValueError ''math domain error'')"
  by (simp add: estimate_density_def surface_gravity_earth_def escape_velocity_km_s_def
      classify_planet_type_def zero_radius_physical_def negative_mass_physical_def
      PhysicalParameters_default_def)

lemma derived_properties_missing_inputs:
  "mass_earth p = None \<or> radius_earth p = None \<Longrightarrow>
   surface_gravity_earth p = Inr None \<and> escape_velocity_km_s p = Inr None \<and>
   (density_g_cm3 p = None \<longrightarrow> estimate_density p = Inr None)"
  by (auto simp: surface_gravity_earth_def escape_velocity_km_s_def estimate_density_def
      split: option.splits)

text \<open>
  Claim C7. For every exoplanet whose \<open>radius_earth\<close> is present, \<open>PlanetRadiusFactor.evaluate\<close>
  returns a result whose score is the tabulated one: below 0.5 it is 0.3, from 0.5 to below
  0.8 it is 0.6, from 0.8 to below 1.25 it is 1.0, from 1.25 to below 1.75 it is 0.85, from
  1.75 to below 2.5 it is 0.4, from 2.5 to below 4.0 it is 0.15, and from 4.0 on it is 0.05.
\<close>

theorem planet_radius_table:
  assumes "radius_earth (physical exoplanet) = Some radius"
  shows "\<exists>res. PlanetRadiusFactor_evaluate exoplanet star = Inr res \<and>
           (radius < 0.5 \<longrightarrow> score res = 0.3) \<and>
           (0.5 \<le> radius \<and> radius < 0.8 \<longrightarrow> score res = 0.6) \<and>
           (0.8 \<le> radius \<and> radius < 1.25 \<longrightarrow> score res = 1.0) \<and>
           (1.25 \<le> radius \<and> radius < 1.75 \<longrightarrow> score res = 0.85) \<and>
           (1.75 \<le> radius \<and> radius < 2.5 \<longrightarrow> score res = 0.4) \<and>
           (2.5 \<le> radius \<and> radius < 4.0 \<longrightarrow> score res = 0.15) \<and>
           (4.0 \<le> radius \<longrightarrow> score res = 0.05)"
  using assms by (simp add: PlanetRadiusFactor_evaluate_def FactorResult_init_def Let_def)

lemma radius_of_planet_with_radius: "radius_earth (physical (planet_with_radius r)) = Some r"
  by (simp add: planet_with_radius_def ExoplanetEntity_default_def PhysicalParameters_default_def)

theorem planet_radius_table_witness:
  "radius_earth (physical (planet_with_radius 0.3)) = Some 0.3 \<and>
   map (\<lambda>r. map_sum id score (PlanetRadiusFactor_evaluate (planet_with_radius r) sun))
       [0.3, 0.6, 1.0, 1.5, 2.0, 3.0, 11.2] =
     [Inr 0.3, Inr 0.6, Inr 1.0, Inr 0.85, Inr 0.4, Inr 0.15, Inr 0.05]"
  using planet_radius_table [of "planet_with_radius 0.3" "0.3" sun, OF radius_of_planet_with_radius]
        planet_radius_table [of "planet_with_radius 0.6" "0.6" sun, OF radius_of_planet_with_radius]
        planet_radius_table [of "planet_with_radius 1.0" "1.0" sun, OF radius_of_planet_with_radius]
        planet_radius_table [of "planet_with_radius 1.5" "1.5" sun, OF radius_of_planet_with_radius]
        planet_radius_table [of "planet_with_radius 2.0" "2.0" sun, OF radius_of_planet_with_radius]
        planet_radius_table [of "planet_with_radius 3.0" "3.0" sun, OF radius_of_planet_with_radius]
        planet_radius_table [of "planet_with_radius 11.2" "11.2" sun, OF radius_of_planet_with_radius]
        radius_of_planet_with_radius [of "0.3"]
  by auto

section \<open>Habitable zone boundaries\<close>

text \<open>
  The order of the four flux polynomials on \<open>-5780 \<le> t_star \<le> 3220\<close>, that is for effective
  temperatures from 0 to 9000 K, by bounding the monomials on sub-intervals.
\<close>

lemma power_atoms:
  fixes u :: real
  assumes "lo \<le> u" "u \<le> hi" "0 \<le> lo"
  shows "lo ^ 2 \<le> u ^ 2" "u ^ 2 \<le> hi ^ 2" "lo ^ 3 \<le> u ^ 3" "u ^ 3 \<le> hi ^ 3"
        "lo ^ 4 \<le> u ^ 4" "u ^ 4 \<le> hi ^ 4" "u ^ 4 \<le> hi * u ^ 3" "lo * u ^ 3 \<le> u ^ 4"
proof -
  have u0: "0 \<le> u" using assms by simp
  show "lo ^ 2 \<le> u ^ 2" "lo ^ 3 \<le> u ^ 3" "lo ^ 4 \<le> u ^ 4"
    using assms by (simp_all add: power_mono)
  show "u ^ 2 \<le> hi ^ 2" "u ^ 3 \<le> hi ^ 3" "u ^ 4 \<le> hi ^ 4"
    using assms u0 by (simp_all add: power_mono)
  have p: "0 \<le> u ^ 3" using u0 by simp
  have e: "u ^ 4 = u * u ^ 3" by (simp add: power4_eq_xxxx power3_eq_cube)
  show "u ^ 4 \<le> hi * u ^ 3" unfolding e using assms(2) p by (rule mult_right_mono)
  show "lo * u ^ 3 \<le> u ^ 4" unfolding e using assms(1) p by (rule mult_right_mono)
qed

lemmas flux_defs = s_recent_venus_def s_runaway_def s_max_greenhouse_def s_early_mars_def

lemma venus_runaway_pos:
  assumes "0 \<le> t" "t \<le> 3220"
  shows "s_runaway t \<le> s_recent_venus t"
proof -
  have f: "0 \<le> t ^ 2" "0 \<le> t ^ 3" "0 \<le> t ^ 4" using assms by simp_all
  note a = power_atoms [OF assms(1) assms(2), simplified]
  show ?thesis
    unfolding flux_defs
    apply simp
    using f a assms by linarith
qed

lemma venus_runaway_neg:
  assumes "0 \<le> u" "u \<le> 5780"
  shows "s_runaway (- u) \<le> s_recent_venus (- u)"
proof -
  have f: "0 \<le> u ^ 2" "0 \<le> u ^ 3" "0 \<le> u ^ 4" using assms by simp_all
  note a = power_atoms [OF assms(1) assms(2), simplified]
  show ?thesis
    unfolding flux_defs
    apply simp
    using f a assms by linarith
qed

lemma runaway_greenhouse_pos:
  assumes "0 \<le> t" "t \<le> 3220"
  shows "s_max_greenhouse t < s_runaway t"
proof -
  have f: "0 \<le> t ^ 2" "0 \<le> t ^ 3" "0 \<le> t ^ 4" using assms by simp_all
  note a = power_atoms [OF assms(1) assms(2), simplified]
  show ?thesis
    unfolding flux_defs
    apply simp
    using f a assms by linarith
qed

lemma runaway_greenhouse_neg1:
  assumes "0 \<le> u" "u \<le> 3700"
  shows "s_max_greenhouse (- u) < s_runaway (- u)"
proof -
  have f: "0 \<le> u ^ 2" "0 \<le> u ^ 3" "0 \<le> u ^ 4" using assms by simp_all
  note a = power_atoms [OF assms(1) assms(2), simplified]
  show ?thesis
    unfolding flux_defs
    apply simp
    using f a assms by linarith
qed

lemma runaway_greenhouse_neg2:
  assumes "3700 \<le> u" "u \<le> 4800"
  shows "s_max_greenhouse (- u) < s_runaway (- u)"
proof -
  have f: "0 \<le> u ^ 2" "0 \<le> u ^ 3" "0 \<le> u ^ 4" using assms by simp_all
  note a = power_atoms [OF assms(1) assms(2), simplified]
  show ?thesis
    unfolding flux_defs
    apply simp
    using f a assms by linarith
qed

lemma runaway_greenhouse_neg3:
  assumes "4800 \<le> u" "u \<le> 5780"
  shows "s_max_greenhouse (- u) < s_runaway (- u)"
proof -
  have f: "0 \<le> u ^ 2" "0 \<le> u ^ 3" "0 \<le> u ^ 4" using assms by simp_all
  note a = power_atoms [OF assms(1) assms(2), simplified]
  show ?thesis
    unfolding flux_defs
    apply simp
    using f a assms by linarith
qed

lemma greenhouse_mars_neg:
  assumes "0 \<le> u" "u \<le> 5780"
  shows "s_early_mars (- u) \<le> s_max_greenhouse (- u)"
proof -
  have f: "0 \<le> u ^ 2" "0 \<le> u ^ 3" "0 \<le> u ^ 4" using assms by simp_all
  note a = power_atoms [OF assms(1) assms(2), simplified]
  show ?thesis
    unfolding flux_defs
    apply simp
    using f a assms by linarith
qed

lemma greenhouse_mars_pos1:
  assumes "0 \<le> t" "t \<le> 2800"
  shows "s_early_mars t \<le> s_max_greenhouse t"
proof -
  have f: "0 \<le> t ^ 2" "0 \<le> t ^ 3" "0 \<le> t ^ 4" using assms by simp_all
  note a = power_atoms [OF assms(1) assms(2), simplified]
  show ?thesis
    unfolding flux_defs
    apply simp
    using f a assms by linarith
qed

lemma greenhouse_mars_pos2:
  assumes "2800 \<le> t" "t \<le> 3220"
  shows "s_early_mars t \<le> s_max_greenhouse t"
proof -
  have f: "0 \<le> t ^ 2" "0 \<le> t ^ 3" "0 \<le> t ^ 4" using assms by simp_all
  note a = power_atoms [OF assms(1) assms(2), simplified]
  show ?thesis
    unfolding flux_defs
    apply simp
    using f a assms by linarith
qed

lemma flux_order:
  assumes "- 5780 \<le> t" "t \<le> 3220"
  shows "s_runaway t \<le> s_recent_venus t"
    and "s_max_greenhouse t < s_runaway t"
    and "s_early_mars t \<le> s_max_greenhouse t"
proof -
  show "s_runaway t \<le> s_recent_venus t"
  proof (cases "0 \<le> t")
    case True
    then show ?thesis using assms(2) by (rule venus_runaway_pos)
  next
    case False
    then have "0 \<le> - t" "- t \<le> 5780" using assms(1) by simp_all
    from venus_runaway_neg [OF this] show ?thesis by simp
  qed
  show "s_max_greenhouse t < s_runaway t"
  proof (cases "0 \<le> t")
    case True
    then show ?thesis using assms(2) by (rule runaway_greenhouse_pos)
  next
    case False
    then have u: "0 \<le> - t" "- t \<le> 5780" using assms(1) by simp_all
    consider "- t \<le> 3700" | "3700 \<le> - t" "- t \<le> 4800" | "4800 \<le> - t" by linarith
    then have "s_max_greenhouse (- (- t)) < s_runaway (- (- t))"
    proof cases
      case 1
      with u(1) show ?thesis by (rule runaway_greenhouse_neg1)
    next
      case 2
      then show ?thesis by (rule runaway_greenhouse_neg2)
    next
      case 3
      then show ?thesis using u(2) by (rule runaway_greenhouse_neg3)
    qed
    then show ?thesis by simp
  qed
  show "s_early_mars t \<le> s_max_greenhouse t"
  proof (cases "0 \<le> t")
    case True
    show ?thesis
    proof (cases "t \<le> 2800")
      case True
      with \<open>0 \<le> t\<close> show ?thesis by (rule greenhouse_mars_pos1)
    next
      case False
      then have "2800 \<le> t" by simp
      then show ?thesis using assms(2) by (rule greenhouse_mars_pos2)
    qed
  next
    case False
    then have "0 \<le> - t" "- t \<le> 5780" using assms(1) by simp_all
    from greenhouse_mars_neg [OF this] show ?thesis by simp
  qed
qed

lemma distance_antitone:
  fixes a b k :: real
  assumes "0 < k" "0 < a" "a \<le> b"
  shows "k / sqrt b \<le> k / sqrt a"
proof -
  have "sqrt a \<le> sqrt b" using assms(3) by simp
  moreover have "0 < sqrt a" using assms(2) by simp
  ultimately show ?thesis using assms(1) by (simp add: frac_le)
qed

lemma distance_strict_antitone:
  fixes a b k :: real
  assumes "0 < k" "0 < a" "a < b"
  shows "k / sqrt b < k / sqrt a"
proof -
  have "sqrt a < sqrt b" using assms(3) by simp
  moreover have "0 < sqrt a" using assms(2) by simp
  ultimately show ?thesis using assms(1) by (simp add: frac_less2)
qed

lemma early_mars_positive:
  assumes "- 5780 \<le> t" "t \<le> 3220"
  shows "0 < s_early_mars t"
proof (cases "0 \<le> t")
  case True
  have f: "0 \<le> t ^ 2" "0 \<le> t ^ 3" "0 \<le> t ^ 4" using True by simp_all
  note a = power_atoms [OF True assms(2), simplified]
  show ?thesis
    unfolding flux_defs
    apply simp
    using f a True assms by linarith
next
  case False
  define u where "u = - t"
  have u: "0 \<le> u" "u \<le> 5780" using False assms(1) by (simp_all add: u_def)
  have f: "0 \<le> u ^ 2" "0 \<le> u ^ 3" "0 \<le> u ^ 4" using u by simp_all
  have "0 < s_early_mars (- u)"
  proof (cases "u \<le> 5600")
    case True
    note a = power_atoms [OF u(1) True, simplified]
    show ?thesis
      unfolding flux_defs
      apply simp
      using f a u True by linarith
  next
    case False
    then have lo: "5600 \<le> u" by simp
    note a = power_atoms [OF lo u(2), simplified]
    show ?thesis
      unfolding flux_defs
      apply simp
      using f a u lo by linarith
  qed
  then show ?thesis by (simp add: u_def)
qed

lemma habitable_zone_defined:
  assumes lum: "estimate_luminosity star = Some luminosity" "0 \<le> luminosity"
      and temp: "0 \<le> temperature_or_solar star" "temperature_or_solar star \<le> 9000"
  shows "\<exists>hz. calculate_habitable_zone star = Inr (Some hz)"
proof -
  define t where "t = temperature_or_solar star - 5780"
  have range: "- 5780 \<le> t" "t \<le> 3220" using temp by (simp_all add: t_def)
  note ord = flux_order [OF range] and em = early_mars_positive [OF range]
  have "0 < s_runaway t \<and> 0 < s_max_greenhouse t \<and> 0 < s_recent_venus t \<and> 0 < s_early_mars t"
    using ord em by linarith
  then show ?thesis
    using lum by (simp add: calculate_habitable_zone_def Let_def t_def)
qed

lemma sun_flux_positive:
  "0 < s_runaway (- 2)" "0 < s_max_greenhouse (- 2)" "0 < s_recent_venus (- 2)" "0 < s_early_mars (- 2)"
  by (simp_all add: flux_defs)

lemma sun_habitable_zone:
  "calculate_habitable_zone sun =
     Inr (Some (1 / sqrt (s_runaway (- 2)), 1 / sqrt (s_max_greenhouse (- 2)),
                1 / sqrt (s_recent_venus (- 2)), 1 / sqrt (s_early_mars (- 2))))"
  by (simp add: calculate_habitable_zone_def sun_def StarEntity_default_def estimate_luminosity_def
      luminosity_linear_def temperature_or_solar_def SOLAR_TEMP_K_def Let_def sun_flux_positive)

lemma sun_luminosity: "estimate_luminosity sun = Some 1"
  by (simp add: sun_def StarEntity_default_def estimate_luminosity_def luminosity_linear_def)

lemma sun_temperature: "temperature_or_solar sun = 5778"
  by (simp add: sun_def StarEntity_default_def temperature_or_solar_def)

text \<open>
  Up to 9000 K the boundaries are ordered: for every star whose estimated luminosity is
  positive and whose effective temperature (\<open>temperature_k\<close>, or 5778 when it is absent or
  0) lies between 0 and 9000 K, the tuple that \<open>calculate_habitable_zone\<close> returns satisfies
  \<open>conservative_inner < conservative_outer\<close> and
  \<open>optimistic_inner \<le> conservative_inner \<le> conservative_outer \<le> optimistic_outer\<close>.
\<close>

lemma habitable_zone_ordered_up_to_9000:
  assumes hz: "calculate_habitable_zone star =
                 Inr (Some (conservative_inner, conservative_outer, optimistic_inner, optimistic_outer))"
      and lum: "estimate_luminosity star = Some luminosity" "0 < luminosity"
      and temp: "0 \<le> temperature_or_solar star" "temperature_or_solar star \<le> 9000"
  shows "conservative_inner < conservative_outer \<and>
         optimistic_inner \<le> conservative_inner \<and>
         conservative_inner \<le> conservative_outer \<and>
         conservative_outer \<le> optimistic_outer"
proof -
  define t where "t = temperature_or_solar star - 5780"
  have range: "- 5780 \<le> t" "t \<le> 3220" using temp by (simp_all add: t_def)
  have pos: "0 < s_runaway t \<and> 0 < s_max_greenhouse t \<and> 0 < s_recent_venus t \<and> 0 < s_early_mars t"
    using hz lum by (simp add: calculate_habitable_zone_def Let_def t_def split: if_splits)
  have vals: "conservative_inner = sqrt luminosity / sqrt (s_runaway t)"
             "conservative_outer = sqrt luminosity / sqrt (s_max_greenhouse t)"
             "optimistic_inner = sqrt luminosity / sqrt (s_recent_venus t)"
             "optimistic_outer = sqrt luminosity / sqrt (s_early_mars t)"
    using hz lum pos by (simp_all add: calculate_habitable_zone_def Let_def t_def split: if_splits)
  have k: "0 < sqrt luminosity" using lum(2) by simp
  note ord = flux_order [OF range]
  have 1: "conservative_inner < conservative_outer"
    unfolding vals using k pos ord(2) by (intro distance_strict_antitone) simp_all
  have 2: "optimistic_inner \<le> conservative_inner"
    unfolding vals using k pos ord(1) by (intro distance_antitone) simp_all
  have 3: "conservative_outer \<le> optimistic_outer"
    unfolding vals using k pos ord(3) by (intro distance_antitone) simp_all
  from 1 2 3 show ?thesis by simp
qed

lemma sun_habitable_zone_ordered:
  "1 / sqrt (s_runaway (- 2)) < 1 / sqrt (s_max_greenhouse (- 2)) \<and>
   1 / sqrt (s_recent_venus (- 2)) \<le> 1 / sqrt (s_runaway (- 2)) \<and>
   1 / sqrt (s_max_greenhouse (- 2)) \<le> 1 / sqrt (s_early_mars (- 2))"
proof -
  have t1: "0 \<le> temperature_or_solar sun" and t2: "temperature_or_solar sun \<le> 9000"
    by (simp_all add: sun_temperature)
  have l: "(0::real) < 1" by simp
  from habitable_zone_ordered_up_to_9000 [OF sun_habitable_zone sun_luminosity l t1 t2]
  show ?thesis by simp
qed

text \<open>
  The maximum-greenhouse flux falls below the early-Mars flux between 9130 K and 9134 K
  (\<open>t_star\<close> 3350 and 3354), and stays below it at 10000 K (\<open>t_star = 4220\<close>), where all
  four fluxes are still positive.
\<close>

lemma flux_crossing:
  "s_early_mars 3350 \<le> s_max_greenhouse 3350" "s_max_greenhouse 3354 < s_early_mars 3354"
  by (simp_all add: flux_defs)

lemma hot_flux:
  "0 < s_runaway 4220" "0 < s_max_greenhouse 4220" "0 < s_recent_venus 4220" "0 < s_early_mars 4220"
  "s_max_greenhouse 4220 < s_early_mars 4220"
  by (simp_all add: flux_defs)

lemma hot_flux_bounds:
  "100 / 361 < s_runaway 4220" "100 / 361 < s_recent_venus 4220"
  "100 / 361 < s_early_mars 4220" "s_max_greenhouse 4220 < 100 / 361"
  by (simp_all add: flux_defs)

lemma inverse_sqrt_below:
  fixes x c :: real
  assumes "0 < c" "(1 / c) ^ 2 < x"
  shows "1 / sqrt x < c"
proof -
  have a: "1 / c < sqrt x" using assms(2) by (rule real_less_rsqrt)
  have b: "0 < 1 / c" using assms(1) by simp
  have s: "0 < sqrt x" using a b by linarith
  have "1 < c * sqrt x" using a assms(1) by (simp add: field_simps)
  then show ?thesis using s by (simp add: divide_less_eq)
qed

lemma inverse_sqrt_above:
  fixes x c :: real
  assumes "0 < c" "0 < x" "x < (1 / c) ^ 2"
  shows "c < 1 / sqrt x"
proof -
  have "0 \<le> 1 / c" using assms(1) by simp
  then have "sqrt x < 1 / c" using assms(3) by (rule real_less_lsqrt)
  moreover have "0 < sqrt x" using assms(2) by simp
  ultimately show ?thesis using assms(1) by (simp add: field_simps)
qed

lemma hot_star_habitable_zone:
  "calculate_habitable_zone hot_star =
     Inr (Some (1 / sqrt (s_runaway 4220), 1 / sqrt (s_max_greenhouse 4220),
                1 / sqrt (s_recent_venus 4220), 1 / sqrt (s_early_mars 4220)))"
  by (simp add: calculate_habitable_zone_def hot_star_def StarEntity_default_def estimate_luminosity_def
      luminosity_linear_def temperature_or_solar_def Let_def hot_flux)

lemma hot_star_boundaries:
  "1 / sqrt (s_runaway 4220) < 1.9" "1 / sqrt (s_recent_venus 4220) < 1.9"
  "1 / sqrt (s_early_mars 4220) < 1.9" "1.9 < 1 / sqrt (s_max_greenhouse 4220)"
proof -
  have c: "(0::real) < 1.9" by simp
  have e: "(1 / 1.9 :: real) ^ 2 = 100 / 361" by (simp add: power2_eq_square)
  show "1 / sqrt (s_runaway 4220) < 1.9"
    using c by (rule inverse_sqrt_below) (simp only: e hot_flux_bounds)
  show "1 / sqrt (s_recent_venus 4220) < 1.9"
    using c by (rule inverse_sqrt_below) (simp only: e hot_flux_bounds)
  show "1 / sqrt (s_early_mars 4220) < 1.9"
    using c by (rule inverse_sqrt_below) (simp only: e hot_flux_bounds)
  show "1.9 < 1 / sqrt (s_max_greenhouse 4220)"
    using c hot_flux(2) by (rule inverse_sqrt_above) (simp only: e hot_flux_bounds)
qed

text \<open>
  For a star of luminosity 0 the four boundaries coincide at 0.
\<close>

lemma dark_star_habitable_zone:
  "calculate_habitable_zone dark_star = Inr (Some (0, 0, 0, 0))"
  by (simp add: calculate_habitable_zone_def dark_star_def StarEntity_default_def estimate_luminosity_def
      luminosity_linear_def temperature_or_solar_def Let_def sun_flux_positive)

text \<open>
  Claim C5 fails on the code. For a star of 10000 K with luminosity 1,
  \<open>calculate_habitable_zone\<close> returns a tuple, all four fluxes being positive at
  \<open>t_star = 4220\<close>, but the maximum-greenhouse flux is below the early-Mars flux there, so
  \<open>optimistic_outer\<close> (about 1.85 AU) is below 1.9 AU and \<open>conservative_outer\<close> (about
  2.04 AU) above it: \<open>conservative_outer \<le> optimistic_outer\<close> fails. \<open>get_hz_position\<close>, which
  tests \<open>distance_au <= cons_outer\<close> before \<open>distance_au <= opt_outer\<close>, then places an orbit
  of 1.9 AU, beyond the optimistic outer edge, in the conservative zone.
\<close>

theorem habitable_zone_disordered:
  "calculate_habitable_zone hot_star =
     Inr (Some (1 / sqrt (s_runaway 4220), 1 / sqrt (s_max_greenhouse 4220),
                1 / sqrt (s_recent_venus 4220), 1 / sqrt (s_early_mars 4220))) \<and>
   1 / sqrt (s_early_mars 4220) < 1.9 \<and>
   1.9 < 1 / sqrt (s_max_greenhouse 4220) \<and>
   \<not> (1 / sqrt (s_max_greenhouse 4220) \<le> 1 / sqrt (s_early_mars 4220)) \<and>
   get_hz_position hot_star 1.9 = Inr (Some ''conservative_hz'')"
proof -
  note b = hot_star_boundaries
  have "get_hz_position hot_star 1.9 = Inr (Some ''conservative_hz'')"
    using b by (simp add: get_hz_position_def hot_star_habitable_zone)
  moreover have "\<not> (1 / sqrt (s_max_greenhouse 4220) \<le> 1 / sqrt (s_early_mars 4220))"
    using b(3) b(4) by linarith
  ultimately show ?thesis using hot_star_habitable_zone b(3) b(4) by simp
qed

end
